theory Spec2Isabelle
  imports Complex_Main
begin

section \<open>Time values (datetime, time, timedelta, tzinfo)\<close>

text \<open>
  The scheduling core computes with Python \<open>datetime\<close>, \<open>time\<close> and \<open>timedelta\<close>
  values. A \<open>time\<close> is its four fields. An aware \<open>datetime\<close> is its wall-clock reading,
  counted in microseconds from 1970-01-01T00:00:00 on its own wall clock, its \<open>tzinfo\<close>
  and its \<open>fold\<close> bit. Two \<open>tzinfo\<close> objects occur in the program: the one
  \<open>ZoneInfo(settings.timezone)\<close> (the constructor caches it, so \<open>local_now\<close> and
  \<open>parse_send_at\<close> attach the same object), and fixed offsets
  (\<open>timezone.utc\<close>, or the offset an ISO text carries), given in microseconds.

  The rules of the configured zone are two functions: the UTC offset at a wall-clock
  reading with its fold bit (\<open>ZoneInfo.utcoffset\<close>), and the wall-clock reading and
  fold bit of a UTC instant (\<open>ZoneInfo.fromutc\<close>). Python reads them from the
  \<open>tzinfo\<close> object; here they are an explicit argument \<open>rules\<close> of every function that
  needs an offset.

  The year range of \<open>datetime\<close> (1 to 9999) is not modelled: the counts are unbounded
  integers.
\<close>

record pytime =
  hour :: nat
  minute :: nat
  second :: nat
  microsecond :: nat

definition time_us :: "pytime \<Rightarrow> int" where
  "time_us t =
     ((int (hour t) * 60 + int (minute t)) * 60 + int (second t)) * 1000000
       + int (microsecond t)"

datatype tz = LocalZone | FixedOffset int

record datetime =
  wall :: int
  tzinfo :: tz
  dt_fold :: bool

record tz_rules =
  zone_utcoffset :: "int \<Rightarrow> bool \<Rightarrow> int"
  zone_fromutc :: "int \<Rightarrow> int \<times> bool"

definition timezone_utc :: tz where
  "timezone_utc = FixedOffset 0"

definition us_per_day :: int where
  "us_per_day = 86400000000"

text \<open>\<open>d.utcoffset()\<close>, and the UTC instant \<open>d\<close> denotes.\<close>

definition utcoffset :: "tz_rules \<Rightarrow> datetime \<Rightarrow> int" where
  "utcoffset rules d =
     (case tzinfo d of
        FixedOffset off \<Rightarrow> off
      | LocalZone \<Rightarrow> zone_utcoffset rules (wall d) (dt_fold d))"

definition instant :: "tz_rules \<Rightarrow> datetime \<Rightarrow> int" where
  "instant rules d = wall d - utcoffset rules d"

text \<open>
  \<open>a < b\<close> for two aware values: Python compares the wall clocks when the two share
  their \<open>tzinfo\<close> object, and otherwise the instants (two fixed offsets that are equal
  give the same answer either way).
\<close>

definition dt_less :: "tz_rules \<Rightarrow> datetime \<Rightarrow> datetime \<Rightarrow> bool" where
  "dt_less rules a b =
     (if tzinfo a = tzinfo b then wall a < wall b else instant rules a < instant rules b)"

text \<open>\<open>d + delta\<close>: wall-clock arithmetic; the sum is built with \<open>fold = 0\<close>.\<close>

definition add_delta :: "datetime \<Rightarrow> int \<Rightarrow> datetime" where
  "add_delta d delta = d\<lparr>wall := wall d + delta, dt_fold := False\<rparr>"

text \<open>\<open>d.timetz().replace(tzinfo=None)\<close>, as microseconds since local midnight.\<close>

definition time_of_day :: "datetime \<Rightarrow> int" where
  "time_of_day d = wall d mod us_per_day"

text \<open>\<open>d.replace(hour=h, minute=m, second=0, microsecond=0)\<close>.\<close>

definition replace_hm :: "datetime \<Rightarrow> nat \<Rightarrow> nat \<Rightarrow> datetime" where
  "replace_hm d h m =
     d\<lparr>wall := (wall d div us_per_day) * us_per_day
                 + (int h * 60 + int m) * 60 * 1000000\<rparr>"

text \<open>
  \<open>d.astimezone(target)\<close>: \<open>d\<close> itself when \<open>target\<close> is its own \<open>tzinfo\<close>, and otherwise
  the same instant on the wall clock of \<open>target\<close>.
\<close>

definition astimezone :: "tz_rules \<Rightarrow> datetime \<Rightarrow> tz \<Rightarrow> datetime" where
  "astimezone rules d target =
     (if target = tzinfo d then d
      else (case target of
        FixedOffset off \<Rightarrow>
          \<lparr>wall = instant rules d + off, tzinfo = target, dt_fold = False\<rparr>
      | LocalZone \<Rightarrow>
          \<lparr>wall = fst (zone_fromutc rules (instant rules d)), tzinfo = LocalZone,
           dt_fold = snd (zone_fromutc rules (instant rules d))\<rparr>))"

section \<open>utils.py\<close>

definition ensure_min_delay :: "tz_rules \<Rightarrow> datetime \<Rightarrow> datetime \<Rightarrow> int \<Rightarrow> datetime" where
  "ensure_min_delay rules dt base min_delay =
     (if dt_less rules dt (add_delta base min_delay) then add_delta base min_delay else dt)"

text \<open>
  \<open>utc_ts\<close> is \<open>int(dt.timestamp())\<close>: whole seconds of the instant, truncated toward zero
  (the float that \<open>timestamp()\<close> returns is taken to be exact). \<open>from_ts_utc\<close> is
  \<open>datetime.fromtimestamp(ts, tz=timezone.utc)\<close>.
\<close>

definition utc_ts :: "tz_rules \<Rightarrow> datetime \<Rightarrow> int" where
  "utc_ts rules dt =
     (if 0 \<le> instant rules dt then instant rules dt div 1000000
      else - ((- instant rules dt) div 1000000))"

definition from_ts_utc :: "int \<Rightarrow> datetime" where
  "from_ts_utc ts = \<lparr>wall = ts * 1000000, tzinfo = timezone_utc, dt_fold = False\<rparr>"

definition timedelta_hours :: "int \<Rightarrow> int" where
  "timedelta_hours h = h * 3600 * 1000000"

text \<open>
  \<open>local_dt.date().isoformat()\<close>: the local calendar day. The ISO text of a date
  determines the date, so a date is modelled by its day number.
\<close>

definition local_date :: "datetime \<Rightarrow> int" where
  "local_date d = wall d div us_per_day"

text \<open>
  \<open>str.strip()\<close> over the ASCII white space that \<open>str.isspace\<close> accepts (code points
  9 to 13 and 28 to 32).
\<close>

definition py_isspace :: "char \<Rightarrow> bool" where
  "py_isspace c =
     ((9 \<le> (of_char c :: nat) \<and> (of_char c :: nat) \<le> 13)
       \<or> (28 \<le> (of_char c :: nat) \<and> (of_char c :: nat) \<le> 32))"

definition strip :: "string \<Rightarrow> string" where
  "strip s = rev (dropWhile py_isspace (rev (dropWhile py_isspace s)))"

section \<open>policy.py: quiet hours\<close>

text \<open>
  A quiet block holds two \<open>time\<close> values. Python orders \<open>time\<close> values field by field,
  which for the fields of a \<open>time\<close> is the order of microseconds since midnight.
\<close>

record quiet_block =
  block_start :: pytime
  block_end :: pytime

definition MIN_SCHEDULE_DELAY :: int where
  "MIN_SCHEDULE_DELAY = 60 * 1000000"

fun is_within_quiet_hours :: "datetime \<Rightarrow> quiet_block list \<Rightarrow> bool" where
  "is_within_quiet_hours local_dt [] = False"
| "is_within_quiet_hours local_dt (block # blocks) =
     (if time_us (block_start block) \<le> time_us (block_end block) then
        (if time_us (block_start block) \<le> time_of_day local_dt
              \<and> time_of_day local_dt < time_us (block_end block)
         then True
         else is_within_quiet_hours local_dt blocks)
      else
        (if time_of_day local_dt \<ge> time_us (block_start block)
              \<or> time_of_day local_dt < time_us (block_end block)
         then True
         else is_within_quiet_hours local_dt blocks))"

text \<open>
  One pass of the inner \<open>for block in blocks\<close> loop of \<open>next_allowed_time\<close>: the first
  block that holds the candidate's time of day moves the candidate (\<open>moved = True; break\<close>);
  \<open>None\<close> is a pass that moved nothing.
\<close>

fun advance_once :: "datetime \<Rightarrow> quiet_block list \<Rightarrow> datetime option" where
  "advance_once candidate [] = None"
| "advance_once candidate (block # blocks) =
     (if time_us (block_start block) \<le> time_us (block_end block) then
        (if time_us (block_start block) \<le> time_of_day candidate
              \<and> time_of_day candidate < time_us (block_end block)
         then Some (replace_hm candidate (hour (block_end block)) (minute (block_end block)))
         else advance_once candidate blocks)
      else
        (if time_of_day candidate \<ge> time_us (block_start block)
         then Some (replace_hm (add_delta candidate us_per_day)
                      (hour (block_end block)) (minute (block_end block)))
         else if time_of_day candidate < time_us (block_end block)
         then Some (replace_hm candidate (hour (block_end block)) (minute (block_end block)))
         else advance_once candidate blocks))"

text \<open>The outer \<open>for _ in range(5)\<close> loop, with the number of passes left.\<close>

fun next_allowed_loop :: "nat \<Rightarrow> datetime \<Rightarrow> quiet_block list \<Rightarrow> datetime" where
  "next_allowed_loop 0 candidate blocks = candidate"
| "next_allowed_loop (Suc n) candidate blocks =
     (case advance_once candidate blocks of
        None \<Rightarrow> candidate
      | Some moved \<Rightarrow> next_allowed_loop n moved blocks)"

definition next_allowed_time :: "datetime \<Rightarrow> quiet_block list \<Rightarrow> datetime" where
  "next_allowed_time local_dt blocks = next_allowed_loop 5 local_dt blocks"

text \<open>
  \<open>sanitize_schedule_time\<close>; the comparison inside \<open>ensure_min_delay\<close> reads the zone
  rules.
\<close>

definition sanitize_schedule_time ::
  "tz_rules \<Rightarrow> datetime \<Rightarrow> datetime \<Rightarrow> quiet_block list \<Rightarrow> datetime" where
  "sanitize_schedule_time rules send_at local_now blocks =
     (if is_within_quiet_hours
           (ensure_min_delay rules send_at local_now MIN_SCHEDULE_DELAY) blocks
      then next_allowed_time (ensure_min_delay rules send_at local_now MIN_SCHEDULE_DELAY) blocks
      else ensure_min_delay rules send_at local_now MIN_SCHEDULE_DELAY)"

section \<open>models.py and config.py\<close>

text \<open>The \<open>status\<close> column holds one of the three literals the store writes.\<close>

datatype plan_status = Pending | Sent | Canceled

record plan_record =
  plan_id :: int
  plan_chat_id :: string
  send_at_utc :: int
  plan_text :: string
  gif_tag :: "string option"
  status :: plan_status
  reason :: string
  confidence :: real

text \<open>A row of the \<open>plans\<close> table: the fields of \<open>PlanRecord\<close> and the two audit columns.\<close>

record plan_row = plan_record +
  created_at_utc :: int
  updated_at_utc :: int

record conversation_state =
  chat_id :: string
  chat_type :: string
  summary :: string
  last_user_ts_utc :: "int option"
  last_bot_ts_utc :: "int option"
  daily_count :: int
  daily_date :: "int option"

record message_row =
  msg_chat_id :: string
  sender_id :: string
  role :: string
  ts_utc :: int
  content :: string
  msg_type :: string

record llm_plan_item =
  send_at :: string
  item_text :: string
  item_gif_tag :: "string option"
  item_reason :: string
  item_confidence :: real

record inbound_event =
  event_chat_id :: string
  event_chat_type :: string

record proactive_config =
  enabled :: bool
  max_per_day :: int
  cooldown_hours :: int
  min_confidence :: real
  max_pending_per_chat :: int

record group_config =
  allow_proactive :: bool
  reply_only_when_mentioned :: bool

text \<open>
  The settings the scheduling core reads. \<open>timezone\<close> stands for the rules of the zone
  that \<open>settings.timezone\<close> names, and \<open>quiet_hours\<close> holds the blocks as
  \<open>build_quiet_blocks\<close> returns them.
\<close>

record settings =
  timezone :: tz_rules
  gif_rate :: string
  proactive :: proactive_config
  quiet_hours :: "quiet_block list"
  groups :: group_config

definition build_quiet_blocks :: "settings \<Rightarrow> quiet_block list" where
  "build_quiet_blocks s = quiet_hours s"

section \<open>policy.py: gates\<close>

definition should_schedule_proactive :: "settings \<Rightarrow> string \<Rightarrow> bool" where
  "should_schedule_proactive s ctype =
     (if \<not> enabled (proactive s) then False
      else if ctype = ''group'' \<and> \<not> allow_proactive (groups s) then False
      else True)"

definition can_use_plan :: "llm_plan_item \<Rightarrow> settings \<Rightarrow> bool" where
  "can_use_plan item s = (item_confidence item \<ge> min_confidence (proactive s))"

text \<open>
  \<open>parse_send_at\<close>. The ISO parser \<open>datetime.fromisoformat\<close> is a parameter: it returns
  \<open>None\<close> where Python raises, and otherwise the wall-clock reading with the UTC offset
  the text carried, if any. A value without offset gets the \<open>tzinfo\<close> of the configured
  zone (\<open>dt.replace(tzinfo=ZoneInfo(tz_name))\<close>), so the function needs no zone rules.
\<close>

definition parse_send_at ::
  "(string \<Rightarrow> (int \<times> int option) option) \<Rightarrow> string \<Rightarrow> datetime option" where
  "parse_send_at fromisoformat raw =
     (case fromisoformat
             (if strip raw \<noteq> [] \<and> last (strip raw) = CHR ''Z''
              then butlast (strip raw) @ ''+00:00'' else strip raw) of
        None \<Rightarrow> None
      | Some (w, None) \<Rightarrow> Some \<lparr>wall = w, tzinfo = LocalZone, dt_fold = False\<rparr>
      | Some (w, Some off) \<Rightarrow> Some \<lparr>wall = w, tzinfo = FixedOffset off, dt_fold = False\<rparr>)"

definition gif_rate_prob :: "string \<Rightarrow> real" where
  "gif_rate_prob rate =
     (if rate = ''off'' then 0
      else if rate = ''low'' then 2 / 10
      else if rate = ''medium'' then 5 / 10
      else if rate = ''high'' then 8 / 10
      else 0)"

section \<open>db.py: the plan store\<close>

text \<open>
  The tables are lists of rows in insertion order; \<open>plan_seq\<close> is the largest plan id
  handed out so far (\<open>AUTOINCREMENT\<close>). Every operation runs under the store's lock in
  one transaction, so it is one step from a store to a store.

  \<open>sqlite3\<close> stores an integer in 64 bits and refuses a larger parameter with
  \<open>OverflowError\<close> before the statement runs. The three mutations of a single plan
  (\<open>mark_plan_sent\<close>, \<open>mark_plan_canceled\<close>, \<open>reschedule_plan\<close>) model this: they
  return the error or the new store. For the other statements the integer parameters
  are taken to fit.
\<close>

record bot_db =
  messages :: "message_row list"
  conversations :: "conversation_state list"
  plans :: "plan_row list"
  plan_seq :: int

datatype error = ConversationNotFound string | SendTextFailed | SendGifFailed | OverflowError

type_synonym plan_tuple = "int \<times> string \<times> string option \<times> string \<times> real"

definition add_message ::
  "bot_db \<Rightarrow> string \<Rightarrow> string \<Rightarrow> string \<Rightarrow> int \<Rightarrow> string \<Rightarrow> string \<Rightarrow> bot_db" where
  "add_message db c sender r ts body mtype =
     db\<lparr>messages := messages db @
       [\<lparr>msg_chat_id = c, sender_id = sender, role = r, ts_utc = ts,
         content = body, msg_type = mtype\<rparr>]\<rparr>"

definition get_conversation :: "bot_db \<Rightarrow> string \<Rightarrow> error + conversation_state" where
  "get_conversation db c =
     (case find (\<lambda>row. chat_id row = c) (conversations db) of
        None \<Rightarrow> Inl (ConversationNotFound c)
      | Some row \<Rightarrow> Inr row)"

definition update_last_bot_ts :: "bot_db \<Rightarrow> string \<Rightarrow> int \<Rightarrow> bot_db" where
  "update_last_bot_ts db c ts =
     db\<lparr>conversations :=
       map (\<lambda>row. if chat_id row = c then row\<lparr>last_bot_ts_utc := Some ts\<rparr> else row)
         (conversations db)\<rparr>"

definition update_daily_counter :: "bot_db \<Rightarrow> string \<Rightarrow> int \<Rightarrow> int \<Rightarrow> bot_db" where
  "update_daily_counter db c n day =
     db\<lparr>conversations :=
       map (\<lambda>row. if chat_id row = c then row\<lparr>daily_count := n, daily_date := Some day\<rparr>
                  else row)
         (conversations db)\<rparr>"

definition plan_from_row :: "plan_row \<Rightarrow> plan_record" where
  "plan_from_row row = plan_record.truncate row"

definition get_pending_plans :: "bot_db \<Rightarrow> string \<Rightarrow> plan_record list" where
  "get_pending_plans db c =
     map plan_from_row
       (sort_key send_at_utc
          (filter (\<lambda>row. plan_chat_id row = c \<and> status row = Pending) (plans db)))"

definition count_pending_plans :: "bot_db \<Rightarrow> string \<Rightarrow> int" where
  "count_pending_plans db c =
     int (length (filter (\<lambda>row. plan_chat_id row = c \<and> status row = Pending) (plans db)))"

text \<open>The \<open>INSERT INTO plans\<close> statement that \<open>add_plan\<close>, \<open>replace_plans\<close> and \<open>append_plans\<close> run.\<close>

definition insert_plan :: "bot_db \<Rightarrow> string \<Rightarrow> plan_tuple \<Rightarrow> int \<Rightarrow> bot_db" where
  "insert_plan db c p now_utc =
     (case p of (send_at_ts, body, gif, why, conf) \<Rightarrow>
        db\<lparr>plans := plans db @
             [\<lparr>plan_id = plan_seq db + 1, plan_chat_id = c, send_at_utc = send_at_ts,
               plan_text = body, gif_tag = gif, status = Pending, reason = why,
               confidence = conf, created_at_utc = now_utc, updated_at_utc = now_utc\<rparr>],
           plan_seq := plan_seq db + 1\<rparr>)"

definition add_plan ::
  "bot_db \<Rightarrow> string \<Rightarrow> int \<Rightarrow> string \<Rightarrow> string option \<Rightarrow> string \<Rightarrow> real \<Rightarrow> int \<Rightarrow> bot_db" where
  "add_plan db c send_at_ts body gif why conf now_utc =
     insert_plan db c (send_at_ts, body, gif, why, conf) now_utc"

text \<open>The \<open>UPDATE ... WHERE chat_id = ? AND status = 'pending'\<close> of \<open>cancel_all_plans\<close> and \<open>replace_plans\<close>.\<close>

definition cancel_pending :: "bot_db \<Rightarrow> string \<Rightarrow> int \<Rightarrow> bot_db" where
  "cancel_pending db c now_utc =
     db\<lparr>plans :=
       map (\<lambda>row. if plan_chat_id row = c \<and> status row = Pending
                  then row\<lparr>status := Canceled, updated_at_utc := now_utc\<rparr> else row)
         (plans db)\<rparr>"

definition cancel_all_plans :: "bot_db \<Rightarrow> string \<Rightarrow> int \<Rightarrow> bot_db \<times> int" where
  "cancel_all_plans db c now_utc = (cancel_pending db c now_utc, count_pending_plans db c)"

definition fits_int64 :: "int \<Rightarrow> bool" where
  "fits_int64 n = (- 9223372036854775808 \<le> n \<and> n \<le> 9223372036854775807)"

text \<open>
  The three \<open>UPDATE ... WHERE id = ?\<close> statements. The parameters are bound in the order
  of the tuple the source passes.
\<close>

definition mark_plan_sent :: "bot_db \<Rightarrow> int \<Rightarrow> int \<Rightarrow> error + bot_db" where
  "mark_plan_sent db pid now_utc =
     (if \<not> fits_int64 now_utc \<or> \<not> fits_int64 pid then Inl OverflowError
      else Inr (db\<lparr>plans :=
             map (\<lambda>row. if plan_id row = pid
                        then row\<lparr>status := Sent, updated_at_utc := now_utc\<rparr> else row)
               (plans db)\<rparr>))"

definition mark_plan_canceled :: "bot_db \<Rightarrow> int \<Rightarrow> int \<Rightarrow> error + bot_db" where
  "mark_plan_canceled db pid now_utc =
     (if \<not> fits_int64 now_utc \<or> \<not> fits_int64 pid then Inl OverflowError
      else Inr (db\<lparr>plans :=
             map (\<lambda>row. if plan_id row = pid
                        then row\<lparr>status := Canceled, updated_at_utc := now_utc\<rparr> else row)
               (plans db)\<rparr>))"

definition reschedule_plan :: "bot_db \<Rightarrow> int \<Rightarrow> int \<Rightarrow> int \<Rightarrow> error + bot_db" where
  "reschedule_plan db pid send_at_ts now_utc =
     (if \<not> fits_int64 send_at_ts \<or> \<not> fits_int64 now_utc \<or> \<not> fits_int64 pid
      then Inl OverflowError
      else Inr (db\<lparr>plans :=
             map (\<lambda>row. if plan_id row = pid
                        then row\<lparr>send_at_utc := send_at_ts, updated_at_utc := now_utc\<rparr>
                        else row)
               (plans db)\<rparr>))"

text \<open>
  \<open>LIMIT ?\<close>: SQLite reads a negative limit as no limit. \<open>ORDER BY send_at_utc ASC\<close> is
  a stable sort of the rows, so rows with the same send time stay in id order.
\<close>

definition sql_limit :: "int \<Rightarrow> 'a list \<Rightarrow> 'a list" where
  "sql_limit n rows = (if n < 0 then rows else take (nat n) rows)"

definition get_due_plans :: "bot_db \<Rightarrow> int \<Rightarrow> int \<Rightarrow> plan_record list" where
  "get_due_plans db now_utc limit =
     map plan_from_row
       (sql_limit limit
          (sort_key send_at_utc
             (filter (\<lambda>row. status row = Pending \<and> send_at_utc row \<le> now_utc) (plans db))))"

text \<open>The call \<open>get_due_plans(now_utc)\<close>, with the default \<open>limit = 50\<close>.\<close>

definition get_due_plans_default :: "bot_db \<Rightarrow> int \<Rightarrow> plan_record list" where
  "get_due_plans_default db now_utc = get_due_plans db now_utc 50"

fun insert_plans :: "bot_db \<Rightarrow> string \<Rightarrow> plan_tuple list \<Rightarrow> int \<Rightarrow> bot_db" where
  "insert_plans db c [] now_utc = db"
| "insert_plans db c (p # ps) now_utc = insert_plans (insert_plan db c p now_utc) c ps now_utc"

definition replace_plans :: "bot_db \<Rightarrow> string \<Rightarrow> plan_tuple list \<Rightarrow> int \<Rightarrow> bot_db" where
  "replace_plans db c ps now_utc = insert_plans (cancel_pending db c now_utc) c ps now_utc"

definition append_plans :: "bot_db \<Rightarrow> string \<Rightarrow> plan_tuple list \<Rightarrow> int \<Rightarrow> bot_db" where
  "append_plans db c ps now_utc = insert_plans db c ps now_utc"

section \<open>main.py: plan application\<close>

text \<open>
  \<open>_apply_planning\<close>. The two clock readings (\<open>utc_ts(utc_now())\<close> and
  \<open>local_now(settings.timezone)\<close>) are inputs, and so is the ISO parser. The function
  returns the store it leaves behind. The test \<open>if conversation.last_bot_ts_utc:\<close> is
  Python truthiness: it fails for \<open>None\<close> and for the timestamp \<open>0\<close>.
\<close>

definition apply_planning ::
  "settings \<Rightarrow> (string \<Rightarrow> (int \<times> int option) option) \<Rightarrow> int \<Rightarrow> datetime \<Rightarrow>
   inbound_event \<Rightarrow> string \<Rightarrow> llm_plan_item option \<Rightarrow> int \<Rightarrow> conversation_state \<Rightarrow>
   bot_db \<Rightarrow> bot_db" where
  "apply_planning s fromisoformat now_utc_ts local_now_dt event action plan_item
       pending_count conversation db =
     (if action = ''cancel_all'' then fst (cancel_all_plans db (event_chat_id event) now_utc_ts)
      else (case plan_item of
        None \<Rightarrow>
          (if action = ''replace_all''
           then fst (cancel_all_plans db (event_chat_id event) now_utc_ts)
           else db)
      | Some item \<Rightarrow>
          if \<not> should_schedule_proactive s (event_chat_type event) then db
          else if \<not> can_use_plan item s then db
          else if daily_count conversation \<ge> max_per_day (proactive s) then db
          else (case parse_send_at fromisoformat (send_at item) of
            None \<Rightarrow> db
          | Some send_at_local \<Rightarrow>
              (let cooldown_until_local =
                     (\<lambda>ts. astimezone (timezone s)
                             (add_delta (from_ts_utc ts)
                                (timedelta_hours (cooldown_hours (proactive s))))
                             (tzinfo local_now_dt));
                   send_at_clamped =
                     (case last_bot_ts_utc conversation of
                        None \<Rightarrow> send_at_local
                      | Some ts \<Rightarrow>
                          if ts = 0 then send_at_local
                          else if dt_less (timezone s) send_at_local (cooldown_until_local ts)
                          then cooldown_until_local ts
                          else send_at_local);
                   send_at_final =
                     sanitize_schedule_time (timezone s) send_at_clamped local_now_dt
                       (build_quiet_blocks s);
                   plan_tuple =
                     (utc_ts (timezone s) (astimezone (timezone s) send_at_final timezone_utc),
                      (if strip (item_text item) = [] then ''(empty)'' else strip (item_text item)),
                      item_gif_tag item, item_reason item, item_confidence item)
               in if action = ''replace_all''
                  then replace_plans db (event_chat_id event) [plan_tuple] now_utc_ts
                  else if action = ''append''
                  then (if pending_count \<ge> max_pending_per_chat (proactive s) then db
                        else append_plans db (event_chat_id event) [plan_tuple] now_utc_ts)
                  else db))))"

section \<open>scheduler.py: the execution loop\<close>

text \<open>
  The collaborators of the loop act on an outside world of type \<open>'w\<close> (the connector's
  state, the gif library's and the random generator's). A send returns whether it
  succeeded (\<open>False\<close>: it raised) and the world it leaves behind.
\<close>

record 'w collaborators =
  send_text :: "string \<Rightarrow> string \<Rightarrow> 'w \<Rightarrow> bool \<times> 'w"
  send_gif :: "string \<Rightarrow> string \<Rightarrow> 'w \<Rightarrow> bool \<times> 'w"
  pick_gif :: "string \<Rightarrow> 'w \<Rightarrow> string option \<times> 'w"
  random_draw :: "'w \<Rightarrow> real \<times> 'w"

record 'w sched_state =
  store :: bot_db
  world :: 'w

definition allow_gif :: "'w collaborators \<Rightarrow> string \<Rightarrow> 'w \<Rightarrow> bool \<times> 'w" where
  "allow_gif ops rate w =
     (if gif_rate_prob rate \<le> 0 then (False, w)
      else (fst (random_draw ops w) < gif_rate_prob rate, snd (random_draw ops w)))"

text \<open>
  \<open>_refresh_daily_counter\<close> of the scheduler, without the \<open>settings\<close> argument it never
  reads: it returns the store and the count to use today.
\<close>

definition refresh_daily_counter ::
  "bot_db \<Rightarrow> string \<Rightarrow> int \<Rightarrow> int option \<Rightarrow> int \<Rightarrow> bot_db \<times> int" where
  "refresh_daily_counter db c current_date ddate dcount =
     (if ddate \<noteq> Some current_date then (update_daily_counter db c 0 current_date, 0)
      else (db, dcount))"

definition next_after_cooldown :: "int option \<Rightarrow> int \<Rightarrow> datetime option" where
  "next_after_cooldown last_bot cooldown =
     (case last_bot of
        None \<Rightarrow> None
      | Some ts \<Rightarrow>
          if ts = 0 then None else Some (add_delta (from_ts_utc ts) (timedelta_hours cooldown)))"

text \<open>
  A statement that mutates one plan and then returns from \<open>_handle_plan\<close>: the error of
  the mutation escapes with the state as it was, and otherwise the new store is kept.
\<close>

definition store_result ::
  "'w sched_state \<Rightarrow> error + bot_db \<Rightarrow> 'w sched_state \<times> error option" where
  "store_result st r =
     (case r of Inl e \<Rightarrow> (st, Some e) | Inr db \<Rightarrow> (st\<lparr>store := db\<rparr>, None))"

text \<open>
  \<open>_handle_plan\<close> returns the state it leaves behind, with the exception that escaped
  it, if any. It is written in three parts: \<open>gif_step\<close> is the \<open>if plan.gif_tag and
  allow_gif(...)\<close> statement, \<open>dispatch_plan\<close> the function from \<open>connector.send_text\<close> to
  its end, and \<open>handle_plan\<close> the checks before it.
\<close>

definition gif_step ::
  "'w collaborators \<Rightarrow> settings \<Rightarrow> datetime \<Rightarrow> plan_record \<Rightarrow> 'w sched_state \<Rightarrow>
   'w sched_state \<times> error option" where
  "gif_step ops s now_utc plan st =
     (case gif_tag plan of
        None \<Rightarrow> (st, None)
      | Some tag \<Rightarrow>
          if tag = [] then (st, None)
          else (case allow_gif ops (gif_rate s) (world st) of
            (allowed, w1) \<Rightarrow>
              if \<not> allowed then (st\<lparr>world := w1\<rparr>, None)
              else (case pick_gif ops tag w1 of
                (None, w2) \<Rightarrow> (st\<lparr>world := w2\<rparr>, None)
              | (Some gif_path, w2) \<Rightarrow>
                  (case send_gif ops (plan_chat_id plan) gif_path w2 of
                     (ok, w3) \<Rightarrow>
                       if \<not> ok then (st\<lparr>world := w3\<rparr>, Some SendGifFailed)
                       else (\<lparr>store = add_message (store st) (plan_chat_id plan) ''bot'' ''bot''
                                        (utc_ts (timezone s) now_utc) gif_path ''gif'',
                              world = w3\<rparr>, None)))))"

definition dispatch_plan ::
  "'w collaborators \<Rightarrow> settings \<Rightarrow> datetime \<Rightarrow> int \<Rightarrow> int \<Rightarrow> plan_record \<Rightarrow>
   'w sched_state \<Rightarrow> 'w sched_state \<times> error option" where
  "dispatch_plan ops s now_utc current_date dcount plan st =
     (case send_text ops (plan_chat_id plan) (plan_text plan) (world st) of
        (ok, w1) \<Rightarrow>
          if \<not> ok then (st\<lparr>world := w1\<rparr>, Some SendTextFailed)
          else (case gif_step ops s now_utc plan
                      \<lparr>store = add_message (store st) (plan_chat_id plan) ''bot'' ''bot''
                                 (utc_ts (timezone s) now_utc) (plan_text plan) ''text'',
                       world = w1\<rparr> of
            (st2, Some e) \<Rightarrow> (st2, Some e)
          | (st2, None) \<Rightarrow>
              (case mark_plan_sent (store st2) (plan_id plan) (utc_ts (timezone s) now_utc) of
                 Inl e \<Rightarrow> (st2, Some e)
               | Inr db3 \<Rightarrow>
                   (st2\<lparr>store :=
                      update_daily_counter
                        (update_last_bot_ts db3 (plan_chat_id plan) (utc_ts (timezone s) now_utc))
                        (plan_chat_id plan) (dcount + 1) current_date\<rparr>, None))))"

definition handle_plan ::
  "'w collaborators \<Rightarrow> settings \<Rightarrow> quiet_block list \<Rightarrow> datetime \<Rightarrow> datetime \<Rightarrow>
   plan_record \<Rightarrow> 'w sched_state \<Rightarrow> 'w sched_state \<times> error option" where
  "handle_plan ops s blocks now_utc local_now_dt plan st =
     (case get_conversation (store st) (plan_chat_id plan) of
        Inl e \<Rightarrow> (st, Some e)
      | Inr conversation \<Rightarrow>
          if \<not> should_schedule_proactive s (chat_type conversation) then
            store_result st
              (mark_plan_canceled (store st) (plan_id plan) (utc_ts (timezone s) now_utc))
          else (case refresh_daily_counter (store st) (plan_chat_id plan)
                      (local_date local_now_dt) (daily_date conversation)
                      (daily_count conversation) of
            (db1, dcount) \<Rightarrow>
              if dcount \<ge> max_per_day (proactive s) then
                store_result (st\<lparr>store := db1\<rparr>)
                  (mark_plan_canceled db1 (plan_id plan) (utc_ts (timezone s) now_utc))
              else if is_within_quiet_hours local_now_dt blocks then
                store_result (st\<lparr>store := db1\<rparr>)
                  (reschedule_plan db1 (plan_id plan)
                     (utc_ts (timezone s)
                        (astimezone (timezone s) (next_allowed_time local_now_dt blocks)
                           timezone_utc))
                     (utc_ts (timezone s) now_utc))
              else (case next_after_cooldown (last_bot_ts_utc conversation)
                          (cooldown_hours (proactive s)) of
                None \<Rightarrow>
                  dispatch_plan ops s now_utc (local_date local_now_dt) dcount plan
                    (st\<lparr>store := db1\<rparr>)
              | Some cooldown_until \<Rightarrow>
                  if dt_less (timezone s) now_utc cooldown_until then
                    store_result (st\<lparr>store := db1\<rparr>)
                      (reschedule_plan db1 (plan_id plan) (utc_ts (timezone s) cooldown_until)
                         (utc_ts (timezone s) now_utc))
                  else
                    dispatch_plan ops s now_utc (local_date local_now_dt) dcount plan
                      (st\<lparr>store := db1\<rparr>))))"

text \<open>
  The \<open>for plan in due_plans\<close> loop of \<open>process_due_plans\<close>: \<open>except Exception\<close> logs what
  escapes \<open>_handle_plan\<close> and goes on with the next plan. Each call of \<open>_handle_plan\<close>
  reads the local clock; \<open>local_clock k\<close> is the reading of the \<open>k\<close>-th call.
\<close>

fun process_plans ::
  "'w collaborators \<Rightarrow> settings \<Rightarrow> quiet_block list \<Rightarrow> datetime \<Rightarrow> (nat \<Rightarrow> datetime) \<Rightarrow>
   nat \<Rightarrow> plan_record list \<Rightarrow> 'w sched_state \<Rightarrow> 'w sched_state" where
  "process_plans ops s blocks now_utc local_clock k [] st = st"
| "process_plans ops s blocks now_utc local_clock k (plan # due) st =
     process_plans ops s blocks now_utc local_clock (Suc k) due
       (fst (handle_plan ops s blocks now_utc (local_clock k) plan st))"

definition process_due_plans ::
  "'w collaborators \<Rightarrow> settings \<Rightarrow> datetime \<Rightarrow> (nat \<Rightarrow> datetime) \<Rightarrow> 'w sched_state \<Rightarrow>
   'w sched_state" where
  "process_due_plans ops s now_utc local_clock st =
     (if get_due_plans_default (store st) (utc_ts (timezone s) now_utc) = [] then st
      else process_plans ops s (build_quiet_blocks s) now_utc local_clock 0
             (get_due_plans_default (store st) (utc_ts (timezone s) now_utc)) st)"

section \<open>Conditions used in the statements\<close>



definition whole_minute_ends :: "quiet_block list \<Rightarrow> bool" where
  "whole_minute_ends blocks =
     list_all (\<lambda>b. second (block_end b) = 0 \<and> microsecond (block_end b) = 0) blocks"





text \<open>The \<open>WHERE\<close> clause of \<open>get_due_plans\<close>.\<close>

definition is_due :: "int \<Rightarrow> plan_row \<Rightarrow> bool" where
  "is_due now_utc row = (status row = Pending \<and> send_at_utc row \<le> now_utc)"

text \<open>The tuple a plan was inserted from, and the row an \<open>INSERT\<close> makes of a tuple.\<close>

definition tuple_of_plan :: "plan_record \<Rightarrow> plan_tuple" where
  "tuple_of_plan r = (send_at_utc r, plan_text r, gif_tag r, reason r, confidence r)"

definition row_of_tuple :: "int \<Rightarrow> string \<Rightarrow> plan_tuple \<Rightarrow> int \<Rightarrow> plan_row" where
  "row_of_tuple i c p now_utc =
     \<lparr>plan_id = i, plan_chat_id = c, send_at_utc = fst p, plan_text = fst (snd p),
      gif_tag = fst (snd (snd p)), status = Pending, reason = fst (snd (snd (snd p))),
      confidence = snd (snd (snd (snd p))), created_at_utc = now_utc,
      updated_at_utc = now_utc\<rparr>"

text \<open>
  The checks of \<open>_apply_planning\<close> between the candidate item and the cooldown step:
  proactive messages are allowed for the chat, the item is confident enough, the
  daily count is below the maximum and the send time parses.
\<close>

definition plan_accepted ::
  "settings \<Rightarrow> (string \<Rightarrow> (int \<times> int option) option) \<Rightarrow> inbound_event \<Rightarrow>
   conversation_state \<Rightarrow> llm_plan_item \<Rightarrow> bool" where
  "plan_accepted s fromisoformat event conversation item =
     (should_schedule_proactive s (event_chat_type event)
      \<and> can_use_plan item s
      \<and> daily_count conversation < max_per_day (proactive s)
      \<and> parse_send_at fromisoformat (send_at item) \<noteq> None)"

text \<open>
  Three expressions of \<open>_apply_planning\<close>, named for the statements: the cooldown
  boundary in local time (\<open>cooldown_until_local\<close>), the desired time after the cooldown
  step, and the plan tuple built from the item and the final send time.
\<close>

definition cooldown_boundary :: "settings \<Rightarrow> int \<Rightarrow> datetime \<Rightarrow> datetime" where
  "cooldown_boundary s ts local_now_dt =
     astimezone (timezone s)
       (add_delta (from_ts_utc ts) (timedelta_hours (cooldown_hours (proactive s))))
       (tzinfo local_now_dt)"

definition clamp_to_cooldown ::
  "settings \<Rightarrow> conversation_state \<Rightarrow> datetime \<Rightarrow> datetime \<Rightarrow> datetime" where
  "clamp_to_cooldown s conversation local_now_dt desired =
     (case last_bot_ts_utc conversation of
        None \<Rightarrow> desired
      | Some ts \<Rightarrow>
          if ts = 0 then desired
          else if dt_less (timezone s) desired (cooldown_boundary s ts local_now_dt)
          then cooldown_boundary s ts local_now_dt else desired)"

definition plan_tuple_for :: "settings \<Rightarrow> llm_plan_item \<Rightarrow> datetime \<Rightarrow> plan_tuple" where
  "plan_tuple_for s item send_at_final =
     (utc_ts (timezone s) (astimezone (timezone s) send_at_final timezone_utc),
      (if strip (item_text item) = [] then ''(empty)'' else strip (item_text item)),
      item_gif_tag item, item_reason item, item_confidence item)"

text \<open>
  The checks of \<open>_handle_plan\<close> that a due plan passes before \<open>connector.send_text\<close> is
  called: its conversation is in the store, proactive messages are allowed for the
  chat, today's count is below the maximum, the local clock is outside the quiet
  hours, and the cooldown after the last bot send is over.
\<close>

definition reaches_send ::
  "settings \<Rightarrow> quiet_block list \<Rightarrow> datetime \<Rightarrow> datetime \<Rightarrow> plan_record \<Rightarrow> bot_db \<Rightarrow> bool" where
  "reaches_send s blocks now_utc local_now_dt plan db =
     (case get_conversation db (plan_chat_id plan) of
        Inl e \<Rightarrow> False
      | Inr conversation \<Rightarrow>
          should_schedule_proactive s (chat_type conversation)
          \<and> snd (refresh_daily_counter db (plan_chat_id plan) (local_date local_now_dt)
                   (daily_date conversation) (daily_count conversation))
              < max_per_day (proactive s)
          \<and> \<not> is_within_quiet_hours local_now_dt blocks
          \<and> (case next_after_cooldown (last_bot_ts_utc conversation)
                     (cooldown_hours (proactive s)) of
                None \<Rightarrow> True
              | Some cooldown_until \<Rightarrow> \<not> dt_less (timezone s) now_utc cooldown_until))"

text \<open>The store after the date rollover of \<open>_refresh_daily_counter\<close> for a plan's chat.\<close>

definition refreshed_store :: "datetime \<Rightarrow> plan_record \<Rightarrow> bot_db \<Rightarrow> bot_db" where
  "refreshed_store local_now_dt plan db =
     (case get_conversation db (plan_chat_id plan) of
        Inl e \<Rightarrow> db
      | Inr conversation \<Rightarrow>
          fst (refresh_daily_counter db (plan_chat_id plan) (local_date local_now_dt)
                 (daily_date conversation) (daily_count conversation)))"

section \<open>Example data\<close>

definition hhmm :: "nat \<Rightarrow> nat \<Rightarrow> pytime" where
  "hhmm h m = \<lparr>hour = h, minute = m, second = 0, microsecond = 0\<rparr>"

text \<open>A time of the configured zone, and a time of \<open>timezone.utc\<close>.\<close>

definition at_wall :: "int \<Rightarrow> datetime" where
  "at_wall w = \<lparr>wall = w, tzinfo = LocalZone, dt_fold = False\<rparr>"

definition utc_at :: "int \<Rightarrow> datetime" where
  "utc_at w = \<lparr>wall = w, tzinfo = timezone_utc, dt_fold = False\<rparr>"

text \<open>
  Zone rules. \<open>fixed_rules\<close> is a zone that keeps one offset. \<open>one_transition_rules\<close> is
  a zone around one change of its offset at the instant \<open>x\<close>: wall-clock readings that
  the change repeats or skips take the old offset with \<open>fold = 0\<close> and the new one with
  \<open>fold = 1\<close>, as \<open>ZoneInfo\<close> does. The two zones below are New York around the
  end of summer time on 2023-11-05 (06:00 UTC) and around its start on 2024-03-10
  (07:00 UTC).
\<close>

definition fixed_rules :: "int \<Rightarrow> tz_rules" where
  "fixed_rules off =
     \<lparr>zone_utcoffset = (\<lambda>w f. off), zone_fromutc = (\<lambda>u. (u + off, False))\<rparr>"




text \<open>The block 22:00 to 07:00, which wraps past midnight.\<close>

definition night_block :: quiet_block where
  "night_block = \<lparr>block_start = hhmm 22 0, block_end = hhmm 7 0\<rparr>"

text \<open>The block 07:00:10 to 07:00:50, whose end carries seconds.\<close>

definition seconds_block :: quiet_block where
  "seconds_block =
     \<lparr>block_start = \<lparr>hour = 7, minute = 0, second = 10, microsecond = 0\<rparr>,
      block_end = \<lparr>hour = 7, minute = 0, second = 50, microsecond = 0\<rparr>\<rparr>"



text \<open>A plan row and a store, for the examples.\<close>

definition example_row :: "int \<Rightarrow> string \<Rightarrow> int \<Rightarrow> plan_status \<Rightarrow> plan_row" where
  "example_row i c t st =
     \<lparr>plan_id = i, plan_chat_id = c, send_at_utc = t, plan_text = ''hello'', gif_tag = None,
      status = st, reason = [], confidence = 1, created_at_utc = 0, updated_at_utc = 0\<rparr>"

definition store_of :: "conversation_state list \<Rightarrow> plan_row list \<Rightarrow> bot_db" where
  "store_of convs rows =
     \<lparr>messages = [], conversations = convs, plans = rows, plan_seq = int (length rows)\<rparr>"

text \<open>A store with a canceled plan and a sent plan.\<close>

definition terminal_db :: bot_db where
  "terminal_db = store_of [] [example_row 1 ''a'' 100 Canceled, example_row 2 ''a'' 100 Sent]"

text \<open>A store with plans of every status, due and not yet due at time 100.\<close>

definition due_db :: bot_db where
  "due_db =
     store_of []
       [example_row 1 ''a'' 20 Pending, example_row 2 ''a'' 5 Sent,
        example_row 3 ''b'' 10 Pending, example_row 4 ''b'' 500 Pending,
        example_row 5 ''a'' 7 Canceled]"

text \<open>
  Settings with proactive messages enabled, one message per day, a cooldown of six
  hours, at most two pending plans per chat, no quiet hours and the zone UTC.
\<close>

definition example_settings :: settings where
  "example_settings =
     \<lparr>timezone = fixed_rules 0, gif_rate = ''off'',
      proactive = \<lparr>enabled = True, max_per_day = 1, cooldown_hours = 6,
                   min_confidence = 6 / 10, max_pending_per_chat = 2\<rparr>,
      quiet_hours = [],
      groups = \<lparr>allow_proactive = False, reply_only_when_mentioned = True\<rparr>\<rparr>"


definition example_event :: inbound_event where
  "example_event = \<lparr>event_chat_id = ''a'', event_chat_type = ''direct''\<rparr>"

text \<open>An ISO parser that knows two texts, both without offset.\<close>

definition known_iso_texts :: "string \<Rightarrow> (int \<times> int option) option" where
  "known_iso_texts txt =
     (if txt = ''2023-11-05T01:20:00'' then Some (1699147200000000, None)
      else if txt = ''2023-11-14T23:13:20'' then Some (1700003600000000, None)
      else None)"

definition example_item :: "string \<Rightarrow> llm_plan_item" where
  "example_item txt =
     \<lparr>send_at = txt, item_text = ''hello'', item_gif_tag = None, item_reason = ''follow up'',
      item_confidence = 9 / 10\<rparr>"

text \<open>The conversation of chat \<open>a\<close>, with its last bot send, daily count and daily date.\<close>

definition example_conversation :: "int option \<Rightarrow> int \<Rightarrow> int option \<Rightarrow> conversation_state" where
  "example_conversation last_bot n day =
     \<lparr>chat_id = ''a'', chat_type = ''direct'', summary = [], last_user_ts_utc = None,
      last_bot_ts_utc = last_bot, daily_count = n, daily_date = day\<rparr>"

text \<open>A store where chat \<open>a\<close> has two pending plans and chat \<open>b\<close> one.\<close>

definition busy_db :: bot_db where
  "busy_db =
     store_of []
       [example_row 1 ''a'' 20 Pending, example_row 2 ''b'' 30 Pending,
        example_row 3 ''a'' 40 Pending]"

text \<open>
  A store where chat \<open>a\<close> has a sent plan and a pending plan, and chat \<open>b\<close> a pending
  plan.
\<close>

definition mixed_db :: bot_db where
  "mixed_db =
     store_of []
       [example_row 1 ''a'' 20 Sent, example_row 2 ''b'' 30 Pending,
        example_row 3 ''a'' 40 Pending]"

text \<open>
  A connector whose world is the list of what it has sent; sending the text \<open>boom\<close>
  fails. No gif is ever found.
\<close>

definition logging_ops :: "(string \<times> string) list collaborators" where
  "logging_ops =
     \<lparr>send_text = (\<lambda>c body w. if body = ''boom'' then (False, w) else (True, w @ [(c, body)])),
      send_gif = (\<lambda>c path w. (True, w @ [(c, path)])),
      pick_gif = (\<lambda>tag w. (None, w)),
      random_draw = (\<lambda>w. (0, w))\<rparr>"

text \<open>A plan row with a given text.\<close>

definition text_row :: "int \<Rightarrow> string \<Rightarrow> int \<Rightarrow> string \<Rightarrow> plan_row" where
  "text_row i c t body = (example_row i c t Pending)\<lparr>plan_text := body\<rparr>"

text \<open>
  The clock of the scheduler examples: noon of 2023-11-14 (UTC), day 19675; the
  \<open>k\<close>-th reading of the local clock is \<open>k\<close> microseconds later.
\<close>

definition noon_utc :: datetime where
  "noon_utc = utc_at 1699963200000000"

definition noon_clock :: "nat \<Rightarrow> datetime" where
  "noon_clock k = at_wall (1699963200000000 + int k)"

text \<open>Chat \<open>a\<close> has sent nothing today and has two due plans; nothing was dispatched.\<close>

definition two_plans_state :: "(string \<times> string) list sched_state" where
  "two_plans_state =
     \<lparr>store = store_of [example_conversation None 0 (Some 19675)]
                [text_row 1 ''a'' 20 ''first'', text_row 2 ''a'' 30 ''second''],
      world = []\<rparr>"

text \<open>The state after the first of the two plans was handled.\<close>

definition after_first_send :: "(string \<times> string) list sched_state" where
  "after_first_send =
     fst (handle_plan logging_ops example_settings [] noon_utc (noon_clock 0)
            (plan_from_row (text_row 1 ''a'' 20 ''first'')) two_plans_state)"

text \<open>Chats \<open>a\<close> and \<open>b\<close> have one due plan each; the text of the plan of chat \<open>a\<close> cannot be sent.\<close>

definition failing_state :: "(string \<times> string) list sched_state" where
  "failing_state =
     \<lparr>store = store_of [example_conversation None 0 (Some 19675),
                        (example_conversation None 0 (Some 19675))\<lparr>chat_id := ''b''\<rparr>]
                [text_row 1 ''a'' 20 ''boom'', text_row 2 ''b'' 30 ''second''],
      world = []\<rparr>"

text \<open>
  Chat \<open>a\<close> has one due plan. \<open>overtaken_state\<close> is the state after a turn of the chat
  has canceled the plan, which the scheduler had fetched before.
\<close>

definition one_plan_state :: "(string \<times> string) list sched_state" where
  "one_plan_state =
     \<lparr>store = store_of [example_conversation None 0 (Some 19675)]
                [text_row 1 ''a'' 20 ''first''],
      world = []\<rparr>"

definition overtaken_state :: "(string \<times> string) list sched_state" where
  "overtaken_state =
     one_plan_state\<lparr>store := fst (cancel_all_plans (store one_plan_state) ''a'' 1699963199)\<rparr>"

section \<open>Quiet hours: advancing a candidate\<close>



lemma advance_once_tzinfo:
  "advance_once c blocks = Some c' \<Longrightarrow> tzinfo c' = tzinfo c"
  by (induction blocks) (auto simp: replace_hm_def add_delta_def split: if_splits)

lemma time_of_day_less_day: "time_of_day c < us_per_day"
  by (simp add: time_of_day_def us_per_day_def)

lemma wall_split: "wall c = (wall c div us_per_day) * us_per_day + time_of_day c"
  by (simp add: time_of_day_def)

lemma replace_same_day_forward:
  assumes "time_of_day c < time_us e" "second e = 0" "microsecond e = 0"
  shows "wall c < wall (replace_hm c (hour e) (minute e))"
proof -
  have "time_us e = (int (hour e) * 60 + int (minute e)) * 60 * 1000000"
    using assms by (simp add: time_us_def)
  then show ?thesis
    using assms(1) wall_split[of c] by (simp add: replace_hm_def)
qed

lemma replace_next_day_forward:
  "wall c < wall (replace_hm (add_delta c us_per_day) h m)"
proof -
  have "(wall c + us_per_day) div us_per_day = wall c div us_per_day + 1"
    by (simp add: us_per_day_def)
  moreover have "0 \<le> (int h * 60 + int m) * 60 * 1000000"
    by simp
  ultimately show ?thesis
    using wall_split[of c] time_of_day_less_day[of c]
    by (simp add: replace_hm_def add_delta_def algebra_simps)
qed

lemma advance_once_forward:
  "whole_minute_ends blocks \<Longrightarrow> advance_once c blocks = Some c' \<Longrightarrow> wall c < wall c'"
proof (induction blocks)
  case Nil
  then show ?case by simp
next
  case (Cons b bs)
  then show ?case
    by (auto simp: whole_minute_ends_def replace_same_day_forward replace_next_day_forward
        split: if_splits)
qed

lemma next_allowed_loop_forward:
  "whole_minute_ends blocks \<Longrightarrow> wall c \<le> wall (next_allowed_loop n c blocks)"
proof (induction n arbitrary: c)
  case 0
  then show ?case by simp
next
  case (Suc n)
  show ?case
  proof (cases "advance_once c blocks")
    case None
    then show ?thesis by simp
  next
    case (Some c')
    then have "wall c < wall c'"
      using Suc.prems advance_once_forward by blast
    moreover have "wall c' \<le> wall (next_allowed_loop n c' blocks)"
      using Suc by blast
    ultimately show ?thesis
      using Some by simp
  qed
qed

lemma next_allowed_loop_tzinfo:
  "tzinfo (next_allowed_loop n c blocks) = tzinfo c"
  by (induction n arbitrary: c) (auto split: option.splits dest: advance_once_tzinfo)


text \<open>
  C10, as stated, fails: with the block 07:00:10 to 07:00:50 the candidate 07:00:20
  jumps to the block's end with its seconds cut off, 07:00:00, which is earlier.
\<close>

theorem next_allowed_time_backward_counterexample:
  "dt_less (fixed_rules 0) (next_allowed_time (at_wall 25220000000) [seconds_block])
     (at_wall 25220000000)"
proof -
  have "next_allowed_time (at_wall 25220000000) [seconds_block] = at_wall 25200000000"
    by code_simp
  then show ?thesis
    by (simp add: dt_less_def at_wall_def)
qed

text \<open>
  C10, amended: when every block ends on a whole minute, \<open>next_allowed_time\<close> never moves
  the candidate backward: the time it returns has the \<open>tzinfo\<close> of the input, its wall
  clock is at or after the input's, and so it is not earlier than the input in
  Python's order, whatever the rules of the zone; where the UTC offset of the result is
  that of the input (always, for a fixed offset), the instant it denotes is at or
  after the input instant.
\<close>

theorem next_allowed_time_not_backward:
  assumes "whole_minute_ends blocks"
  shows "wall local_dt \<le> wall (next_allowed_time local_dt blocks)
         \<and> \<not> dt_less rules (next_allowed_time local_dt blocks) local_dt
         \<and> tzinfo (next_allowed_time local_dt blocks) = tzinfo local_dt
         \<and> (utcoffset rules (next_allowed_time local_dt blocks) = utcoffset rules local_dt
              \<longrightarrow> instant rules local_dt \<le> instant rules (next_allowed_time local_dt blocks))"
proof -
  have "wall local_dt \<le> wall (next_allowed_loop 5 local_dt blocks)"
    using assms by (rule next_allowed_loop_forward)
  then show ?thesis
    by (simp add: next_allowed_time_def dt_less_def instant_def next_allowed_loop_tzinfo)
qed

text \<open>
  The theorem at 23:00 of day 0 with the block 22:00 to 07:00: the result is 07:00 of
  day 1.
\<close>

theorem next_allowed_time_not_backward_witness:
  "whole_minute_ends [night_block]
   \<and> next_allowed_time (at_wall 82800000000) [night_block] = at_wall 111600000000
   \<and> utcoffset (fixed_rules 0) (at_wall 111600000000)
       = utcoffset (fixed_rules 0) (at_wall 82800000000)
   \<and> instant (fixed_rules 0) (at_wall 82800000000)
        \<le> instant (fixed_rules 0) (next_allowed_time (at_wall 82800000000) [night_block])"
proof -
  have ends: "whole_minute_ends [night_block]"
    by (simp add: whole_minute_ends_def night_block_def hhmm_def)
  have moved: "next_allowed_time (at_wall 82800000000) [night_block] = at_wall 111600000000"
    by code_simp
  have same: "utcoffset (fixed_rules 0) (at_wall 111600000000)
       = utcoffset (fixed_rules 0) (at_wall 82800000000)"
    by (simp add: utcoffset_def at_wall_def fixed_rules_def)
  show ?thesis
    using next_allowed_time_not_backward[OF ends, of "at_wall 82800000000" "fixed_rules 0"]
      ends moved same
    by simp
qed

section \<open>Quiet hours: where the passes end\<close>












section \<open>Sanitizing a schedule time\<close>








section \<open>The plan store: single-plan mutations\<close>

lemma update_rows_same_iff:
  "map (\<lambda>row. if plan_id row = pid then f row else row) rows = rows
     \<longleftrightarrow> (\<forall>row \<in> set rows. plan_id row = pid \<longrightarrow> f row = row)"
  by (induction rows) auto

lemma store_plans_same_iff: "db\<lparr>plans := rows\<rparr> = db \<longleftrightarrow> rows = plans db"
  by (cases db) simp

lemma row_status_same_iff:
  "(row\<lparr>status := st, updated_at_utc := t\<rparr> = row) \<longleftrightarrow> (status row = st \<and> updated_at_utc row = t)"
  for row :: plan_row
  by (cases row) auto

lemma row_send_at_same_iff:
  "(row\<lparr>send_at_utc := u, updated_at_utc := t\<rparr> = row)
     \<longleftrightarrow> (send_at_utc row = u \<and> updated_at_utc row = t)"
  for row :: plan_row
  by (cases row) auto

lemma mark_plan_sent_result:
  assumes "fits_int64 pid" "fits_int64 now_utc"
  shows "mark_plan_sent db pid now_utc
           = Inr (db\<lparr>plans := map (\<lambda>row. if plan_id row = pid
                                       then row\<lparr>status := Sent, updated_at_utc := now_utc\<rparr>
                                       else row) (plans db)\<rparr>)"
  using assms by (simp add: mark_plan_sent_def)

lemma mark_plan_canceled_result:
  assumes "fits_int64 pid" "fits_int64 now_utc"
  shows "mark_plan_canceled db pid now_utc
           = Inr (db\<lparr>plans := map (\<lambda>row. if plan_id row = pid
                                       then row\<lparr>status := Canceled, updated_at_utc := now_utc\<rparr>
                                       else row) (plans db)\<rparr>)"
  using assms by (simp add: mark_plan_canceled_def)

lemma reschedule_plan_result:
  assumes "fits_int64 pid" "fits_int64 new_send_at" "fits_int64 now_utc"
  shows "reschedule_plan db pid new_send_at now_utc
           = Inr (db\<lparr>plans := map (\<lambda>row. if plan_id row = pid
                                       then row\<lparr>send_at_utc := new_send_at,
                                                updated_at_utc := now_utc\<rparr>
                                       else row) (plans db)\<rparr>)"
  using assms by (simp add: reschedule_plan_def)

text \<open>
  C1, as stated, fails: the three \<open>UPDATE\<close> statements select the row by id alone. In a
  store with the canceled plan 1 and the sent plan 2 (both due at 100),
  \<open>mark_plan_sent\<close> turns plan 1 into a sent plan, \<open>mark_plan_canceled\<close> turns plan 2 into
  a canceled plan, and \<open>reschedule_plan\<close> moves the send time of plan 2 to 999; with the
  send time \<open>2^63\<close> it raises \<open>OverflowError\<close>. The scheduler reaches such a call: a
  due plan that a turn of its chat cancels after \<open>get_due_plans\<close> has fetched it is
  handled all the same, its text is sent and its row becomes a sent plan.
\<close>

theorem terminal_plan_mutations_counterexample:
  "map status (plans terminal_db) = [Canceled, Sent]
   \<and> map send_at_utc (plans terminal_db) = [100, 100]
   \<and> mark_plan_sent terminal_db 1 200
       = Inr (store_of [] [(example_row 1 ''a'' 100 Sent)\<lparr>updated_at_utc := 200\<rparr>,
                           example_row 2 ''a'' 100 Sent])
   \<and> mark_plan_canceled terminal_db 2 200
       = Inr (store_of [] [example_row 1 ''a'' 100 Canceled,
                           (example_row 2 ''a'' 100 Canceled)\<lparr>updated_at_utc := 200\<rparr>])
   \<and> reschedule_plan terminal_db 2 999 200
       = Inr (store_of [] [example_row 1 ''a'' 100 Canceled,
                           (example_row 2 ''a'' 999 Sent)\<lparr>updated_at_utc := 200\<rparr>])
   \<and> reschedule_plan terminal_db 2 9223372036854775808 200 = Inl OverflowError
   \<and> get_due_plans_default (store one_plan_state) (utc_ts (fixed_rules 0) noon_utc)
       = [plan_from_row (text_row 1 ''a'' 20 ''first'')]
   \<and> map status (plans (store overtaken_state)) = [Canceled]
   \<and> map status
       (plans (store (fst (handle_plan logging_ops example_settings [] noon_utc (noon_clock 0)
                             (plan_from_row (text_row 1 ''a'' 20 ''first'')) overtaken_state))))
       = [Sent]
   \<and> world (fst (handle_plan logging_ops example_settings [] noon_utc (noon_clock 0)
                   (plan_from_row (text_row 1 ''a'' 20 ''first'')) overtaken_state))
       = [(''a'', ''first'')]"
proof -
  have before: "map status (plans terminal_db) = [Canceled, Sent]"
    "map send_at_utc (plans terminal_db) = [100, 100]"
    by (simp_all add: terminal_db_def store_of_def example_row_def)
  have sent: "mark_plan_sent terminal_db 1 200
       = Inr (store_of [] [(example_row 1 ''a'' 100 Sent)\<lparr>updated_at_utc := 200\<rparr>,
                           example_row 2 ''a'' 100 Sent])"
    by (simp add: mark_plan_sent_def fits_int64_def terminal_db_def store_of_def example_row_def)
  have canceled: "mark_plan_canceled terminal_db 2 200
       = Inr (store_of [] [example_row 1 ''a'' 100 Canceled,
                           (example_row 2 ''a'' 100 Canceled)\<lparr>updated_at_utc := 200\<rparr>])"
    by (simp add: mark_plan_canceled_def fits_int64_def terminal_db_def store_of_def
        example_row_def)
  have moved: "reschedule_plan terminal_db 2 999 200
       = Inr (store_of [] [example_row 1 ''a'' 100 Canceled,
                           (example_row 2 ''a'' 999 Sent)\<lparr>updated_at_utc := 200\<rparr>])"
    by (simp add: reschedule_plan_def fits_int64_def terminal_db_def store_of_def
        example_row_def)
  have overflow: "reschedule_plan terminal_db 2 9223372036854775808 200 = Inl OverflowError"
    by (simp add: reschedule_plan_def fits_int64_def)
  have fetched: "get_due_plans_default (store one_plan_state) (utc_ts (fixed_rules 0) noon_utc)
       = [plan_from_row (text_row 1 ''a'' 20 ''first'')]"
    by code_simp
  have overtaken: "map status (plans (store overtaken_state)) = [Canceled]"
    by code_simp
  have handled: "map status
       (plans (store (fst (handle_plan logging_ops example_settings [] noon_utc (noon_clock 0)
                             (plan_from_row (text_row 1 ''a'' 20 ''first'')) overtaken_state))))
       = [Sent]"
    by code_simp
  have dispatched: "world (fst (handle_plan logging_ops example_settings [] noon_utc
                   (noon_clock 0) (plan_from_row (text_row 1 ''a'' 20 ''first''))
                   overtaken_state))
       = [(''a'', ''first'')]"
    by code_simp
  show ?thesis
    using before sent canceled moved overflow fetched overtaken handled dispatched by blast
qed

text \<open>
  C1, amended: each of the three single-plan mutations raises \<open>OverflowError\<close> exactly
  when one of its integer arguments does not fit 64 bits, and then leaves the store
  alone. Otherwise it raises nothing and rewrites every plan with the given id,
  whatever its status, leaving everything else in the store as it was:
  \<open>mark_plan_sent\<close> makes the plan sent, \<open>mark_plan_canceled\<close> makes it canceled,
  \<open>reschedule_plan\<close> overwrites its send time and keeps its status, and each stamps the
  update time. So the call leaves the store unchanged exactly when every plan with
  that id already holds the values written: for a terminal plan, \<open>mark_plan_sent\<close> on a
  sent plan or \<open>mark_plan_canceled\<close> on a canceled plan that carries the same update
  time, and \<open>reschedule_plan\<close> with the send time and update time the plan has.
\<close>

theorem single_plan_mutations_by_id:
  "(mark_plan_sent db pid now_utc = Inl OverflowError
      \<longleftrightarrow> \<not> (fits_int64 pid \<and> fits_int64 now_utc))
   \<and> (mark_plan_canceled db pid now_utc = Inl OverflowError
      \<longleftrightarrow> \<not> (fits_int64 pid \<and> fits_int64 now_utc))
   \<and> (reschedule_plan db pid new_send_at now_utc = Inl OverflowError
      \<longleftrightarrow> \<not> (fits_int64 pid \<and> fits_int64 new_send_at \<and> fits_int64 now_utc))
   \<and> (fits_int64 pid \<and> fits_int64 now_utc \<longrightarrow>
        (\<exists>db'. mark_plan_sent db pid now_utc = Inr db'
           \<and> db' = db\<lparr>plans := plans db'\<rparr>
           \<and> plans db'
               = map (\<lambda>row. if plan_id row = pid
                             then row\<lparr>status := Sent, updated_at_utc := now_utc\<rparr> else row)
                   (plans db)
           \<and> (db' = db \<longleftrightarrow>
                (\<forall>row \<in> set (plans db).
                   plan_id row = pid \<longrightarrow> status row = Sent \<and> updated_at_utc row = now_utc))))
   \<and> (fits_int64 pid \<and> fits_int64 now_utc \<longrightarrow>
        (\<exists>db'. mark_plan_canceled db pid now_utc = Inr db'
           \<and> db' = db\<lparr>plans := plans db'\<rparr>
           \<and> plans db'
               = map (\<lambda>row. if plan_id row = pid
                             then row\<lparr>status := Canceled, updated_at_utc := now_utc\<rparr> else row)
                   (plans db)
           \<and> (db' = db \<longleftrightarrow>
                (\<forall>row \<in> set (plans db).
                   plan_id row = pid \<longrightarrow> status row = Canceled \<and> updated_at_utc row = now_utc))))
   \<and> (fits_int64 pid \<and> fits_int64 new_send_at \<and> fits_int64 now_utc \<longrightarrow>
        (\<exists>db'. reschedule_plan db pid new_send_at now_utc = Inr db'
           \<and> db' = db\<lparr>plans := plans db'\<rparr>
           \<and> plans db'
               = map (\<lambda>row. if plan_id row = pid
                             then row\<lparr>send_at_utc := new_send_at, updated_at_utc := now_utc\<rparr>
                             else row)
                   (plans db)
           \<and> map status (plans db') = map status (plans db)
           \<and> (db' = db \<longleftrightarrow>
                (\<forall>row \<in> set (plans db).
                   plan_id row = pid \<longrightarrow>
                     send_at_utc row = new_send_at \<and> updated_at_utc row = now_utc))))"
proof -
  have raise_sent: "mark_plan_sent db pid now_utc = Inl OverflowError
      \<longleftrightarrow> \<not> (fits_int64 pid \<and> fits_int64 now_utc)"
    by (auto simp: mark_plan_sent_def)
  have raise_canceled: "mark_plan_canceled db pid now_utc = Inl OverflowError
      \<longleftrightarrow> \<not> (fits_int64 pid \<and> fits_int64 now_utc)"
    by (auto simp: mark_plan_canceled_def)
  have raise_moved: "reschedule_plan db pid new_send_at now_utc = Inl OverflowError
      \<longleftrightarrow> \<not> (fits_int64 pid \<and> fits_int64 new_send_at \<and> fits_int64 now_utc)"
    by (auto simp: reschedule_plan_def)
  have sent: "\<exists>db'. mark_plan_sent db pid now_utc = Inr db'
           \<and> db' = db\<lparr>plans := plans db'\<rparr>
           \<and> plans db'
               = map (\<lambda>row. if plan_id row = pid
                             then row\<lparr>status := Sent, updated_at_utc := now_utc\<rparr> else row)
                   (plans db)
           \<and> (db' = db \<longleftrightarrow>
                (\<forall>row \<in> set (plans db).
                   plan_id row = pid \<longrightarrow> status row = Sent \<and> updated_at_utc row = now_utc))"
    if "fits_int64 pid \<and> fits_int64 now_utc"
    using that
    by (simp add: mark_plan_sent_result store_plans_same_iff update_rows_same_iff
        row_status_same_iff)
  have canceled: "\<exists>db'. mark_plan_canceled db pid now_utc = Inr db'
           \<and> db' = db\<lparr>plans := plans db'\<rparr>
           \<and> plans db'
               = map (\<lambda>row. if plan_id row = pid
                             then row\<lparr>status := Canceled, updated_at_utc := now_utc\<rparr> else row)
                   (plans db)
           \<and> (db' = db \<longleftrightarrow>
                (\<forall>row \<in> set (plans db).
                   plan_id row = pid \<longrightarrow> status row = Canceled \<and> updated_at_utc row = now_utc))"
    if "fits_int64 pid \<and> fits_int64 now_utc"
    using that
    by (simp add: mark_plan_canceled_result store_plans_same_iff update_rows_same_iff
        row_status_same_iff)
  have moved: "\<exists>db'. reschedule_plan db pid new_send_at now_utc = Inr db'
           \<and> db' = db\<lparr>plans := plans db'\<rparr>
           \<and> plans db'
               = map (\<lambda>row. if plan_id row = pid
                             then row\<lparr>send_at_utc := new_send_at, updated_at_utc := now_utc\<rparr>
                             else row)
                   (plans db)
           \<and> map status (plans db') = map status (plans db)
           \<and> (db' = db \<longleftrightarrow>
                (\<forall>row \<in> set (plans db).
                   plan_id row = pid \<longrightarrow>
                     send_at_utc row = new_send_at \<and> updated_at_utc row = now_utc))"
    if "fits_int64 pid \<and> fits_int64 new_send_at \<and> fits_int64 now_utc"
    using that
    by (simp add: reschedule_plan_result store_plans_same_iff update_rows_same_iff
        row_send_at_same_iff)
  show ?thesis
    using raise_sent raise_canceled raise_moved sent canceled moved by blast
qed

text \<open>
  The theorem on the store with the canceled plan 1 and the sent plan 2, whose rows
  carry the update time 0: marking plan 1 sent changes the store, while canceling it
  once more at the update time 0 does not; and a send time of \<open>2^63\<close> is refused.
\<close>

theorem single_plan_mutations_by_id_witness:
  "fits_int64 1 \<and> fits_int64 200 \<and> fits_int64 999 \<and> fits_int64 0
   \<and> \<not> fits_int64 9223372036854775808
   \<and> mark_plan_sent terminal_db 1 200 \<noteq> Inl OverflowError
   \<and> mark_plan_sent terminal_db 1 200 \<noteq> Inr terminal_db
   \<and> mark_plan_canceled terminal_db 1 0 = Inr terminal_db
   \<and> reschedule_plan terminal_db 2 100 0 = Inr terminal_db
   \<and> reschedule_plan terminal_db 2 9223372036854775808 0 = Inl OverflowError"
proof -
  have fits: "fits_int64 1" "fits_int64 200" "fits_int64 999" "fits_int64 0" "fits_int64 100"
    "fits_int64 2" "\<not> fits_int64 9223372036854775808"
    by (simp_all add: fits_int64_def)
  have live: "\<not> (\<forall>row \<in> set (plans terminal_db).
                   plan_id row = 1 \<longrightarrow> status row = Sent \<and> updated_at_utc row = 200)"
    by (simp add: terminal_db_def store_of_def example_row_def)
  have idle: "\<forall>row \<in> set (plans terminal_db).
                   plan_id row = 1 \<longrightarrow> status row = Canceled \<and> updated_at_utc row = 0"
    by (simp add: terminal_db_def store_of_def example_row_def)
  have still: "\<forall>row \<in> set (plans terminal_db).
                   plan_id row = 2 \<longrightarrow> send_at_utc row = 100 \<and> updated_at_utc row = 0"
    by (simp add: terminal_db_def store_of_def example_row_def)
  have a: "mark_plan_sent terminal_db 1 200 \<noteq> Inl OverflowError
           \<and> mark_plan_sent terminal_db 1 200 \<noteq> Inr terminal_db"
    using single_plan_mutations_by_id[of terminal_db 1 200 999] fits live by auto
  have b: "mark_plan_canceled terminal_db 1 0 = Inr terminal_db"
    using single_plan_mutations_by_id[of terminal_db 1 0 999] fits idle by auto
  have c: "reschedule_plan terminal_db 2 100 0 = Inr terminal_db"
    using single_plan_mutations_by_id[of terminal_db 2 0 100] fits still by auto
  have d: "reschedule_plan terminal_db 2 9223372036854775808 0 = Inl OverflowError"
    using single_plan_mutations_by_id[of terminal_db 2 0 9223372036854775808] fits by blast
  show ?thesis
    using fits a b c d by blast
qed

section \<open>The plan store: due plans\<close>

lemma plan_from_row_fields [simp]:
  "status (plan_from_row row) = status row"
  "send_at_utc (plan_from_row row) = send_at_utc row"
  "plan_id (plan_from_row row) = plan_id row"
  "plan_chat_id (plan_from_row row) = plan_chat_id row"
  by (simp_all add: plan_from_row_def plan_record.truncate_def)

lemma sorted_take_drop_le:
  assumes "sorted (map f xs)" "x \<in> set (take n xs)" "y \<in> set (drop n xs)"
  shows "f x \<le> f y"
proof -
  have "sorted (map f (take n xs) @ map f (drop n xs))"
    using assms(1) by (simp flip: map_append)
  then show ?thesis
    using assms(2,3) by (auto simp: sorted_append)
qed

lemma sql_limit_take: "\<exists>k. sql_limit n rows = take k rows"
proof (cases "n < 0")
  case True
  then have "sql_limit n rows = take (length rows) rows"
    by (simp add: sql_limit_def)
  then show ?thesis ..
next
  case False
  then have "sql_limit n rows = take (nat n) rows"
    by (simp add: sql_limit_def)
  then show ?thesis ..
qed

text \<open>
  C5, as stated, fails for a negative limit, which SQLite reads as no limit: on a store
  with two due plans, the limit \<open>-1\<close> returns both.
\<close>

theorem get_due_plans_negative_limit_counterexample:
  "map plan_id (get_due_plans due_db 100 (- 1)) = [3, 1]
   \<and> length (get_due_plans due_db 100 (- 1)) = 2
   \<and> \<not> int (length (get_due_plans due_db 100 (- 1))) \<le> - 1"
proof -
  have ids: "map plan_id (get_due_plans due_db 100 (- 1)) = [3, 1]"
    by code_simp
  have len: "length (get_due_plans due_db 100 (- 1)) = 2"
    by code_simp
  show ?thesis
    using ids len by simp
qed

text \<open>
  C5, amended: for every now and every limit, \<open>get_due_plans\<close> returns plans in
  ascending order of send time, each of them a pending plan of the store with
  \<open>send_at_utc \<le> now_utc\<close> (so none is sent or canceled), and a due plan left out is not
  earlier than any returned plan. For a limit that is a count (\<open>0 \<le> limit\<close>) it
  returns \<open>limit\<close> plans, or all due plans when there are fewer; for a negative limit
  it returns all due plans. When the limit is negative or the due plans fit it, the
  result holds exactly the due plans. The call without limit is the call with limit
  50: it returns 50 plans, or all due plans when there are fewer.
\<close>

theorem get_due_plans_spec:
  "sorted (map send_at_utc (get_due_plans db now_utc limit))
    \<and> set (get_due_plans db now_utc limit)
        \<subseteq> plan_from_row ` {row \<in> set (plans db). is_due now_utc row}
    \<and> (\<forall>p \<in> set (get_due_plans db now_utc limit).
          status p = Pending \<and> send_at_utc p \<le> now_utc)
    \<and> (\<forall>row \<in> set (plans db). is_due now_utc row \<longrightarrow>
          plan_from_row row \<notin> set (get_due_plans db now_utc limit) \<longrightarrow>
          (\<forall>p \<in> set (get_due_plans db now_utc limit). send_at_utc p \<le> send_at_utc row))
    \<and> (0 \<le> limit \<longrightarrow>
         length (get_due_plans db now_utc limit)
           = min (nat limit) (length (filter (is_due now_utc) (plans db))))
    \<and> (limit < 0 \<longrightarrow>
         length (get_due_plans db now_utc limit)
           = length (filter (is_due now_utc) (plans db)))
    \<and> (limit < 0 \<or> int (length (filter (is_due now_utc) (plans db))) \<le> limit \<longrightarrow>
         set (get_due_plans db now_utc limit)
           = plan_from_row ` {row \<in> set (plans db). is_due now_utc row})
    \<and> get_due_plans_default db now_utc = get_due_plans db now_utc 50
    \<and> length (get_due_plans_default db now_utc)
        = min 50 (length (filter (is_due now_utc) (plans db)))"
proof -
  let ?due = "filter (\<lambda>row. status row = Pending \<and> send_at_utc row \<le> now_utc) (plans db)"
  let ?srt = "sort_key send_at_utc ?due"
  have due: "filter (is_due now_utc) (plans db) = ?due"
    by (simp add: is_due_def[abs_def])
  obtain k where r: "get_due_plans db now_utc limit = map plan_from_row (take k ?srt)"
    using sql_limit_take[of limit ?srt] by (auto simp: get_due_plans_def)
  have srt: "sorted (map send_at_utc ?srt)"
    by (rule sorted_sort_key)
  have s1: "sorted (map send_at_utc (get_due_plans db now_utc limit))"
    using sorted_wrt_take[OF srt[unfolded sorted_map], of k]
    by (simp add: r comp_def sorted_map)
  have s2: "set (get_due_plans db now_utc limit)
        \<subseteq> plan_from_row ` {row \<in> set (plans db). is_due now_utc row}"
    using set_take_subset[of k ?srt] by (auto simp: r is_due_def)
  have s3: "\<forall>p \<in> set (get_due_plans db now_utc limit).
              status p = Pending \<and> send_at_utc p \<le> now_utc"
    using s2 by (auto simp: is_due_def)
  have s4: "send_at_utc p \<le> send_at_utc row"
    if row: "row \<in> set (plans db)" "is_due now_utc row"
      and missing: "plan_from_row row \<notin> set (get_due_plans db now_utc limit)"
      and p: "p \<in> set (get_due_plans db now_utc limit)" for row p
  proof -
    have "row \<in> set ?srt"
      using row by (simp add: is_due_def)
    moreover have "row \<notin> set (take k ?srt)"
      using missing by (auto simp: r)
    ultimately have "row \<in> set (drop k ?srt)"
      by (metis Un_iff append_take_drop_id set_append)
    moreover obtain q where "q \<in> set (take k ?srt)" "p = plan_from_row q"
      using p by (auto simp: r)
    ultimately show ?thesis
      using sorted_take_drop_le[OF srt] by simp
  qed
  have s5: "length (get_due_plans db now_utc limit)
           = min (nat limit) (length (filter (is_due now_utc) (plans db)))"
    if "0 \<le> limit"
    using that by (simp add: get_due_plans_def sql_limit_def due min.commute)
  have s6: "length (get_due_plans db now_utc limit)
           = length (filter (is_due now_utc) (plans db))"
    if "limit < 0"
    using that by (simp add: get_due_plans_def sql_limit_def due)
  have s7: "set (get_due_plans db now_utc limit)
           = plan_from_row ` {row \<in> set (plans db). is_due now_utc row}"
    if "limit < 0 \<or> int (length (filter (is_due now_utc) (plans db))) \<le> limit"
  proof -
    have "sql_limit limit ?srt = ?srt"
      using that by (auto simp: sql_limit_def due)
    then show ?thesis
      by (auto simp: get_due_plans_def is_due_def)
  qed
  have s8: "get_due_plans_default db now_utc = get_due_plans db now_utc 50"
    by (simp add: get_due_plans_default_def)
  have s9: "length (get_due_plans_default db now_utc)
        = min 50 (length (filter (is_due now_utc) (plans db)))"
    by (simp add: get_due_plans_default_def get_due_plans_def sql_limit_def due min.commute)
  show ?thesis
    using s1 s2 s3 s4 s5 s6 s7 s8 s9 by blast
qed

text \<open>
  The theorem on a store with five plans at time 100: plans 1 (due at 20) and 3 (due at
  10) are pending and due, plan 2 is sent, plan 5 canceled and plan 4 due only at 500.
  With limit 1 the result is plan 3; with limit 50, without limit and with limit -1 it
  is plan 3, then plan 1.
\<close>

theorem get_due_plans_spec_witness:
  "(0::int) \<le> 1 \<and> (- 1::int) < 0
   \<and> get_due_plans due_db 100 1 = [plan_from_row (example_row 3 ''b'' 10 Pending)]
   \<and> map plan_id (get_due_plans due_db 100 50) = [3, 1]
   \<and> map plan_id (get_due_plans_default due_db 100) = [3, 1]
   \<and> length (filter (is_due 100) (plans due_db)) = 2
   \<and> sorted (map send_at_utc (get_due_plans due_db 100 1))
   \<and> length (get_due_plans due_db 100 1)
       = min (nat 1) (length (filter (is_due 100) (plans due_db)))
   \<and> length (get_due_plans due_db 100 (- 1)) = length (filter (is_due 100) (plans due_db))"
proof -
  have one: "get_due_plans due_db 100 1 = [plan_from_row (example_row 3 ''b'' 10 Pending)]"
    by code_simp
  have all: "map plan_id (get_due_plans due_db 100 50) = [3, 1]"
    by code_simp
  have due: "length (filter (is_due 100) (plans due_db)) = 2"
    by code_simp
  have dflt: "map plan_id (get_due_plans_default due_db 100) = [3, 1]"
    using get_due_plans_spec[of due_db 100 50] all by simp
  show ?thesis
    using get_due_plans_spec[of due_db 100 1] get_due_plans_spec[of due_db 100 "- 1"]
      one all due dflt
    by simp
qed

section \<open>The plan store: replacing the pending plans\<close>

lemma pending_after_cancel:
  "filter (\<lambda>row. plan_chat_id row = c \<and> status row = Pending)
     (plans (cancel_pending db c now_utc)) = []"
  by (simp add: cancel_pending_def filter_map comp_def filter_empty_conv)

lemma replace_one_plans:
  "plans (replace_plans db c [p] now_utc)
     = map (\<lambda>row. if plan_chat_id row = c \<and> status row = Pending
                   then row\<lparr>status := Canceled, updated_at_utc := now_utc\<rparr> else row)
         (plans db)
       @ [row_of_tuple (plan_seq db + 1) c p now_utc]"
  by (cases p) (simp add: replace_plans_def insert_plan_def cancel_pending_def row_of_tuple_def)

lemma replace_one_rest:
  "messages (replace_plans db c [p] now_utc) = messages db"
  "conversations (replace_plans db c [p] now_utc) = conversations db"
  "plan_seq (replace_plans db c [p] now_utc) = plan_seq db + 1"
  by (cases p; simp add: replace_plans_def insert_plan_def cancel_pending_def)+

lemma pending_after_replace_one:
  "filter (\<lambda>row. plan_chat_id row = c \<and> status row = Pending)
     (plans (replace_plans db c [p] now_utc))
   = [row_of_tuple (plan_seq db + 1) c p now_utc]"
proof -
  have "filter (\<lambda>row. plan_chat_id row = c \<and> status row = Pending)
          (map (\<lambda>row. if plan_chat_id row = c \<and> status row = Pending
                       then row\<lparr>status := Canceled, updated_at_utc := now_utc\<rparr> else row)
             (plans db)) = []"
    by (simp add: filter_map comp_def filter_empty_conv)
  then show ?thesis
    by (simp add: replace_one_plans row_of_tuple_def)
qed

lemma count_after_replace_one:
  "count_pending_plans (replace_plans db c [p] now_utc) c = 1"
  by (simp add: count_pending_plans_def pending_after_replace_one)

lemma other_chats_kept:
  "filter (\<lambda>row. plan_chat_id row \<noteq> c)
     (map (\<lambda>row. if plan_chat_id row = c \<and> status row = Pending
                  then row\<lparr>status := Canceled, updated_at_utc := t\<rparr> else row) rows)
   = filter (\<lambda>row. plan_chat_id row \<noteq> c) rows"
  by (induction rows) auto

lemma cancel_again:
  "map (\<lambda>row. if plan_chat_id row = c \<and> status row = Pending
                then row\<lparr>status := Canceled, updated_at_utc := t2\<rparr> else row)
     (map (\<lambda>row. if plan_chat_id row = c \<and> status row = Pending
                   then row\<lparr>status := Canceled, updated_at_utc := t1\<rparr> else row) rows)
   = map (\<lambda>row. if plan_chat_id row = c \<and> status row = Pending
                 then row\<lparr>status := Canceled, updated_at_utc := t1\<rparr> else row) rows"
  by (induction rows) auto

lemma replace_twice_plans:
  "plans (replace_plans (replace_plans db c [p1] t1) c [p2] t2)
     = map (\<lambda>row. if plan_chat_id row = c \<and> status row = Pending
                   then row\<lparr>status := Canceled, updated_at_utc := t1\<rparr> else row)
         (plans db)
       @ [(row_of_tuple (plan_seq db + 1) c p1 t1)\<lparr>status := Canceled, updated_at_utc := t2\<rparr>,
          row_of_tuple (plan_seq db + 2) c p2 t2]"
proof -
  have "plan_seq (replace_plans db c [p1] t1) + 1 = plan_seq db + 2"
    by (simp add: replace_one_rest)
  then show ?thesis
    by (simp add: replace_one_plans[of "replace_plans db c [p1] t1"] replace_one_plans[of db]
        cancel_again)
      (simp add: row_of_tuple_def)
qed

section \<open>Plan application\<close>

lemma apply_planning_cancel_all:
  "apply_planning s f now_ts lnow ev ''cancel_all'' item_opt pc conv db
     = cancel_pending db (event_chat_id ev) now_ts"
  by (simp add: apply_planning_def cancel_all_plans_def)

lemma apply_planning_no_item:
  "apply_planning s f now_ts lnow ev action None pc conv db
     = (if action = ''cancel_all'' \<or> action = ''replace_all''
        then cancel_pending db (event_chat_id ev) now_ts else db)"
  by (simp add: apply_planning_def cancel_all_plans_def)

lemma apply_planning_accepted_replace:
  assumes "plan_accepted s f ev conv item"
    and "parse_send_at f (send_at item) = Some desired"
  shows "apply_planning s f now_ts lnow ev ''replace_all'' (Some item) pc conv db
     = replace_plans db (event_chat_id ev)
         [plan_tuple_for s item
            (sanitize_schedule_time (timezone s) (clamp_to_cooldown s conv lnow desired) lnow
               (build_quiet_blocks s))] now_ts"
  using assms
  unfolding cooldown_boundary_def clamp_to_cooldown_def plan_tuple_for_def
  by (simp add: apply_planning_def plan_accepted_def Let_def)


lemma apply_planning_replace_all:
  assumes "plan_accepted s f ev conv item"
  shows "\<exists>p. apply_planning s f now_ts lnow ev ''replace_all'' (Some item) pc conv db
              = replace_plans db (event_chat_id ev) [p] now_ts"
proof -
  obtain desired where "parse_send_at f (send_at item) = Some desired"
    using assms by (auto simp: plan_accepted_def)
  then show ?thesis
    using apply_planning_accepted_replace[OF assms, of desired] by blast
qed

text \<open>
  C3: \<open>replace_plans\<close> with one item cancels every pending plan of the chat, leaves
  every other row (the plans of other chats, the sent and the canceled plans) and the
  other tables as they were, and appends the new plan as a pending plan with the next
  id. So after it is applied twice in a row for a chat, the old pending plans and the
  plan of the first call are canceled, the rows of other chats are as they were, and
  the chat has exactly one pending plan, the plan of the second call. Two \<open>replace_all\<close>
  directives applied by \<open>_apply_planning\<close>, each with a candidate item that passes the
  checks of plan application, are two such calls of \<open>replace_plans\<close>.
\<close>

theorem replace_all_twice_one_pending:
  "plans (replace_plans db c [p1] t1)
     = map (\<lambda>row. if plan_chat_id row = c \<and> status row = Pending
                   then row\<lparr>status := Canceled, updated_at_utc := t1\<rparr> else row)
         (plans db)
       @ [row_of_tuple (plan_seq db + 1) c p1 t1]
   \<and> plans (replace_plans (replace_plans db c [p1] t1) c [p2] t2)
     = map (\<lambda>row. if plan_chat_id row = c \<and> status row = Pending
                   then row\<lparr>status := Canceled, updated_at_utc := t1\<rparr> else row)
         (plans db)
       @ [(row_of_tuple (plan_seq db + 1) c p1 t1)\<lparr>status := Canceled, updated_at_utc := t2\<rparr>,
          row_of_tuple (plan_seq db + 2) c p2 t2]
   \<and> messages (replace_plans (replace_plans db c [p1] t1) c [p2] t2) = messages db
   \<and> conversations (replace_plans (replace_plans db c [p1] t1) c [p2] t2) = conversations db
   \<and> filter (\<lambda>row. plan_chat_id row \<noteq> c)
       (plans (replace_plans (replace_plans db c [p1] t1) c [p2] t2))
     = filter (\<lambda>row. plan_chat_id row \<noteq> c) (plans db)
   \<and> count_pending_plans (replace_plans (replace_plans db c [p1] t1) c [p2] t2) c = 1
   \<and> map tuple_of_plan
       (get_pending_plans (replace_plans (replace_plans db c [p1] t1) c [p2] t2) c) = [p2]
   \<and> (plan_accepted s1 f1 ev conv1 item1 \<and> plan_accepted s2 f2 ev conv2 item2 \<longrightarrow>
        (\<exists>q1 q2.
           apply_planning s2 f2 now2 lnow2 ev ''replace_all'' (Some item2) pc2 conv2
             (apply_planning s1 f1 now1 lnow1 ev ''replace_all'' (Some item1) pc1 conv1 db)
           = replace_plans (replace_plans db (event_chat_id ev) [q1] now1)
               (event_chat_id ev) [q2] now2)
        \<and> count_pending_plans
          (apply_planning s2 f2 now2 lnow2 ev ''replace_all'' (Some item2) pc2 conv2
             (apply_planning s1 f1 now1 lnow1 ev ''replace_all'' (Some item1) pc1 conv1 db))
          (event_chat_id ev) = 1)"
proof -
  let ?R = "replace_plans (replace_plans db c [p1] t1) c [p2] t2"
  have once: "plans (replace_plans db c [p1] t1)
     = map (\<lambda>row. if plan_chat_id row = c \<and> status row = Pending
                   then row\<lparr>status := Canceled, updated_at_utc := t1\<rparr> else row)
         (plans db)
       @ [row_of_tuple (plan_seq db + 1) c p1 t1]"
    by (rule replace_one_plans)
  have rows: "plans ?R
     = map (\<lambda>row. if plan_chat_id row = c \<and> status row = Pending
                   then row\<lparr>status := Canceled, updated_at_utc := t1\<rparr> else row)
         (plans db)
       @ [(row_of_tuple (plan_seq db + 1) c p1 t1)\<lparr>status := Canceled, updated_at_utc := t2\<rparr>,
          row_of_tuple (plan_seq db + 2) c p2 t2]"
    by (rule replace_twice_plans)
  have rest: "messages ?R = messages db" "conversations ?R = conversations db"
    by (simp_all add: replace_one_rest)
  have others: "filter (\<lambda>row. plan_chat_id row \<noteq> c) (plans ?R)
     = filter (\<lambda>row. plan_chat_id row \<noteq> c) (plans db)"
    unfolding rows by (simp add: other_chats_kept) (simp add: row_of_tuple_def)
  have twice: "count_pending_plans ?R c = 1"
    by (rule count_after_replace_one)
  have second: "map tuple_of_plan (get_pending_plans ?R c) = [p2]"
    by (cases p2)
      (simp add: get_pending_plans_def pending_after_replace_one plan_from_row_def
        plan_record.truncate_def tuple_of_plan_def row_of_tuple_def)
  have applied: "(\<exists>q1 q2.
           apply_planning s2 f2 now2 lnow2 ev ''replace_all'' (Some item2) pc2 conv2
             (apply_planning s1 f1 now1 lnow1 ev ''replace_all'' (Some item1) pc1 conv1 db)
           = replace_plans (replace_plans db (event_chat_id ev) [q1] now1)
               (event_chat_id ev) [q2] now2)
        \<and> count_pending_plans
          (apply_planning s2 f2 now2 lnow2 ev ''replace_all'' (Some item2) pc2 conv2
             (apply_planning s1 f1 now1 lnow1 ev ''replace_all'' (Some item1) pc1 conv1 db))
          (event_chat_id ev) = 1"
    if first_accepted: "plan_accepted s1 f1 ev conv1 item1"
      and second_accepted: "plan_accepted s2 f2 ev conv2 item2"
  proof -
    obtain q1 where q1: "apply_planning s1 f1 now1 lnow1 ev ''replace_all'' (Some item1) pc1
                      conv1 db
           = replace_plans db (event_chat_id ev) [q1] now1"
      using apply_planning_replace_all[OF first_accepted] by blast
    obtain q2 where q2: "apply_planning s2 f2 now2 lnow2 ev ''replace_all'' (Some item2) pc2
                      conv2 (replace_plans db (event_chat_id ev) [q1] now1)
           = replace_plans (replace_plans db (event_chat_id ev) [q1] now1)
               (event_chat_id ev) [q2] now2"
      using apply_planning_replace_all[OF second_accepted] by blast
    show ?thesis
      unfolding q1 q2 using count_after_replace_one by blast
  qed
  show ?thesis
    using once rows rest others twice second applied by blast
qed

text \<open>
  The theorem on a store where chat \<open>a\<close> has a sent plan and a pending plan and chat
  \<open>b\<close> a pending plan: after two accepted \<open>replace_all\<close> directives for chat \<open>a\<close> its
  sent plan is still sent, its old pending plan and the plan of the first directive are
  canceled, the plan of chat \<open>b\<close> is still pending, and chat \<open>a\<close> has one pending plan.
\<close>

theorem replace_all_twice_one_pending_witness:
  "plan_accepted example_settings known_iso_texts example_event
     (example_conversation (Some 1700000000) 0 None) (example_item ''2023-11-14T23:13:20'')
   \<and> map status (plans mixed_db) = [Sent, Pending, Pending]
   \<and> map status
       (plans (apply_planning example_settings known_iso_texts 1700000005
          (at_wall 1700000005000000) example_event ''replace_all''
          (Some (example_item ''2023-11-14T23:13:20'')) 1
          (example_conversation (Some 1700000000) 0 None)
          (apply_planning example_settings known_iso_texts 1700000000
             (at_wall 1700000000000000) example_event ''replace_all''
             (Some (example_item ''2023-11-14T23:13:20'')) 2
             (example_conversation (Some 1700000000) 0 None) mixed_db)))
     = [Sent, Pending, Canceled, Canceled, Pending]
   \<and> count_pending_plans
       (apply_planning example_settings known_iso_texts 1700000005
          (at_wall 1700000005000000) example_event ''replace_all''
          (Some (example_item ''2023-11-14T23:13:20'')) 1
          (example_conversation (Some 1700000000) 0 None)
          (apply_planning example_settings known_iso_texts 1700000000
             (at_wall 1700000000000000) example_event ''replace_all''
             (Some (example_item ''2023-11-14T23:13:20'')) 2
             (example_conversation (Some 1700000000) 0 None) mixed_db))
       ''a'' = 1"
proof -
  have acc: "plan_accepted example_settings known_iso_texts example_event
     (example_conversation (Some 1700000000) 0 None) (example_item ''2023-11-14T23:13:20'')"
    by code_simp
  have before: "map status (plans mixed_db) = [Sent, Pending, Pending]"
    by code_simp
  have after: "map status
       (plans (apply_planning example_settings known_iso_texts 1700000005
          (at_wall 1700000005000000) example_event ''replace_all''
          (Some (example_item ''2023-11-14T23:13:20'')) 1
          (example_conversation (Some 1700000000) 0 None)
          (apply_planning example_settings known_iso_texts 1700000000
             (at_wall 1700000000000000) example_event ''replace_all''
             (Some (example_item ''2023-11-14T23:13:20'')) 2
             (example_conversation (Some 1700000000) 0 None) mixed_db)))
     = [Sent, Pending, Canceled, Canceled, Pending]"
    by code_simp
  have chat: "event_chat_id example_event = ''a''"
    by (simp add: example_event_def)
  show ?thesis
    using replace_all_twice_one_pending[where ev = example_event
        and ?s1.0 = example_settings and ?s2.0 = example_settings
        and ?f1.0 = known_iso_texts and ?f2.0 = known_iso_texts
        and ?conv1.0 = "example_conversation (Some 1700000000) 0 None"
        and ?conv2.0 = "example_conversation (Some 1700000000) 0 None"
        and ?item1.0 = "example_item ''2023-11-14T23:13:20''"
        and ?item2.0 = "example_item ''2023-11-14T23:13:20''"
        and db = mixed_db and ?now1.0 = 1700000000 and ?now2.0 = 1700000005
        and ?lnow1.0 = "at_wall 1700000000000000" and ?lnow2.0 = "at_wall 1700000005000000"
        and ?pc1.0 = 2 and ?pc2.0 = 1]
      acc before after
    by (simp add: chat)
qed

text \<open>
  C4: when the pending count handed to plan application is at or above
  \<open>max_pending_per_chat\<close>, an \<open>append\<close> directive (with or without a candidate item)
  leaves the store as it was: no plan is inserted and the chat's pending count is
  unchanged.
\<close>

theorem append_at_cap_is_noop:
  assumes "max_pending_per_chat (proactive s) \<le> pending_count"
  shows "apply_planning s f now_ts lnow ev ''append'' item_opt pending_count conv db = db
     \<and> count_pending_plans
         (apply_planning s f now_ts lnow ev ''append'' item_opt pending_count conv db)
         (event_chat_id ev)
       = count_pending_plans db (event_chat_id ev)"
proof -
  have "apply_planning s f now_ts lnow ev ''append'' item_opt pending_count conv db = db"
    using assms by (simp add: apply_planning_def Let_def split: option.splits)
  then show ?thesis
    by simp
qed

text \<open>
  The theorem on a store where chat \<open>a\<close> has two pending plans and the maximum is two:
  an accepted item is not appended.
\<close>

theorem append_at_cap_is_noop_witness:
  "max_pending_per_chat (proactive example_settings) \<le> count_pending_plans busy_db ''a''
   \<and> plan_accepted example_settings known_iso_texts example_event
       (example_conversation (Some 1700000000) 0 None) (example_item ''2023-11-14T23:13:20'')
   \<and> apply_planning example_settings known_iso_texts 1700000000 (at_wall 1700000000000000)
       example_event ''append'' (Some (example_item ''2023-11-14T23:13:20''))
       (count_pending_plans busy_db ''a'') (example_conversation (Some 1700000000) 0 None)
       busy_db
     = busy_db"
proof -
  have cap: "max_pending_per_chat (proactive example_settings)
               \<le> count_pending_plans busy_db ''a''"
    by code_simp
  have acc: "plan_accepted example_settings known_iso_texts example_event
     (example_conversation (Some 1700000000) 0 None) (example_item ''2023-11-14T23:13:20'')"
    by code_simp
  show ?thesis
    using append_at_cap_is_noop[OF cap, of known_iso_texts 1700000000
        "at_wall 1700000000000000" example_event "Some (example_item ''2023-11-14T23:13:20'')"
        "example_conversation (Some 1700000000) 0 None" busy_db]
      cap acc
    by simp
qed

text \<open>
  C7: \<open>replace_all\<close> with no candidate item leaves the same store as \<open>cancel_all\<close> does
  (with any item): the store \<open>cancel_all_plans\<close> returns, in which the chat has no
  pending plan and no plan was inserted. Any action other than \<open>cancel_all\<close> and
  \<open>replace_all\<close> with no item leaves the store unchanged.
\<close>

theorem replace_all_without_item_cancels:
  "apply_planning s f now_ts lnow ev ''replace_all'' None pc conv db
     = apply_planning s f now_ts lnow ev ''cancel_all'' item_opt pc' conv' db
   \<and> apply_planning s f now_ts lnow ev ''replace_all'' None pc conv db
     = fst (cancel_all_plans db (event_chat_id ev) now_ts)
   \<and> count_pending_plans
       (apply_planning s f now_ts lnow ev ''replace_all'' None pc conv db) (event_chat_id ev)
     = 0
   \<and> length (plans (apply_planning s f now_ts lnow ev ''replace_all'' None pc conv db))
     = length (plans db)
   \<and> (action \<noteq> ''cancel_all'' \<and> action \<noteq> ''replace_all'' \<longrightarrow>
        apply_planning s f now_ts lnow ev action None pc conv db = db)"
proof -
  have same: "apply_planning s f now_ts lnow ev ''replace_all'' None pc conv db
     = apply_planning s f now_ts lnow ev ''cancel_all'' item_opt pc' conv' db"
    by (simp add: apply_planning_cancel_all apply_planning_no_item)
  have cancel: "apply_planning s f now_ts lnow ev ''replace_all'' None pc conv db
     = fst (cancel_all_plans db (event_chat_id ev) now_ts)"
    by (simp add: apply_planning_no_item cancel_all_plans_def)
  have none: "count_pending_plans
       (apply_planning s f now_ts lnow ev ''replace_all'' None pc conv db) (event_chat_id ev)
     = 0"
    by (simp add: apply_planning_no_item count_pending_plans_def pending_after_cancel)
  have len: "length (plans (apply_planning s f now_ts lnow ev ''replace_all'' None pc conv db))
     = length (plans db)"
    by (simp add: apply_planning_no_item cancel_pending_def)
  have other: "apply_planning s f now_ts lnow ev action None pc conv db = db"
    if "action \<noteq> ''cancel_all''" "action \<noteq> ''replace_all''"
    using that by (simp add: apply_planning_no_item)
  show ?thesis
    using same cancel none len other by blast
qed

text \<open>
  The theorem on a store where chat \<open>a\<close> has two pending plans and chat \<open>b\<close> one:
  \<open>replace_all\<close> without item cancels the two plans of chat \<open>a\<close>, and \<open>append\<close> and
  \<open>none\<close> without item change nothing.
\<close>

theorem replace_all_without_item_cancels_witness:
  "map status
     (plans (apply_planning example_settings known_iso_texts 100 (at_wall 100000000)
               example_event ''replace_all'' None 2 (example_conversation None 0 None) busy_db))
     = [Canceled, Pending, Canceled]
   \<and> apply_planning example_settings known_iso_texts 100 (at_wall 100000000)
       example_event ''replace_all'' None 2 (example_conversation None 0 None) busy_db
     = apply_planning example_settings known_iso_texts 100 (at_wall 100000000)
       example_event ''cancel_all'' None 2 (example_conversation None 0 None) busy_db
   \<and> apply_planning example_settings known_iso_texts 100 (at_wall 100000000)
       example_event ''append'' None 2 (example_conversation None 0 None) busy_db = busy_db
   \<and> apply_planning example_settings known_iso_texts 100 (at_wall 100000000)
       example_event ''none'' None 2 (example_conversation None 0 None) busy_db = busy_db"
proof -
  have statuses: "map status
     (plans (apply_planning example_settings known_iso_texts 100 (at_wall 100000000)
               example_event ''replace_all'' None 2 (example_conversation None 0 None) busy_db))
     = [Canceled, Pending, Canceled]"
    by code_simp
  show ?thesis
    using statuses
      replace_all_without_item_cancels[of example_settings known_iso_texts 100
        "at_wall 100000000" example_event 2 "example_conversation None 0 None" busy_db
        None 2 "example_conversation None 0 None" "''append''"]
      replace_all_without_item_cancels[of example_settings known_iso_texts 100
        "at_wall 100000000" example_event 2 "example_conversation None 0 None" busy_db
        None 2 "example_conversation None 0 None" "''none''"]
    by simp
qed

section \<open>Plan application: the cooldown step\<close>









section \<open>The execution loop\<close>

lemma refresh_daily_counter_plans:
  "plans (fst (refresh_daily_counter db c today ddate dcount)) = plans db"
  "messages (fst (refresh_daily_counter db c today ddate dcount)) = messages db"
  by (simp_all add: refresh_daily_counter_def update_daily_counter_def)

lemma gif_step_plans:
  "plans (store (fst (gif_step ops s now_utc plan st))) = plans (store st)"
  by (simp add: gif_step_def add_message_def split: option.splits prod.splits)

lemma rewrite_keeps_other_ids:
  assumes "pid' \<noteq> pid" "\<And>row. plan_id (g row) = plan_id row"
  shows "filter (\<lambda>row. plan_id row = pid')
           (map (\<lambda>row. if plan_id row = pid then g row else row) rows)
         = filter (\<lambda>row. plan_id row = pid') rows"
  using assms by (induction rows) auto

text \<open>A mutation of one plan leaves the rows of every other id as they were.\<close>

lemma mutation_other_rows:
  assumes "pid' \<noteq> pid"
  shows "mark_plan_sent db pid t = Inr db' \<Longrightarrow>
           filter (\<lambda>row. plan_id row = pid') (plans db')
             = filter (\<lambda>row. plan_id row = pid') (plans db)"
    and "mark_plan_canceled db pid t = Inr db' \<Longrightarrow>
           filter (\<lambda>row. plan_id row = pid') (plans db')
             = filter (\<lambda>row. plan_id row = pid') (plans db)"
    and "reschedule_plan db pid u t = Inr db' \<Longrightarrow>
           filter (\<lambda>row. plan_id row = pid') (plans db')
             = filter (\<lambda>row. plan_id row = pid') (plans db)"
  using assms
  by (auto simp: mark_plan_sent_def mark_plan_canceled_def reschedule_plan_def
      rewrite_keeps_other_ids split: if_splits)

lemma store_result_other_rows:
  assumes "\<And>db'. r = Inr db' \<Longrightarrow> filter P (plans db') = filter P (plans (store st))"
  shows "filter P (plans (store (fst (store_result st r)))) = filter P (plans (store st))"
  using assms by (cases r) (simp_all add: store_result_def)

lemma dispatch_plan_other_rows:
  assumes "pid \<noteq> plan_id plan"
  shows "filter (\<lambda>row. plan_id row = pid)
           (plans (store (fst (dispatch_plan ops s now_utc today dcount plan st))))
         = filter (\<lambda>row. plan_id row = pid) (plans (store st))"
proof (cases "fst (send_text ops (plan_chat_id plan) (plan_text plan) (world st))")
  case False
  then show ?thesis
    by (cases "send_text ops (plan_chat_id plan) (plan_text plan) (world st)")
      (simp add: dispatch_plan_def)
next
  case True
  let ?st1 = "\<lparr>store = add_message (store st) (plan_chat_id plan) ''bot'' ''bot''
                         (utc_ts (timezone s) now_utc) (plan_text plan) ''text'',
               world = snd (send_text ops (plan_chat_id plan) (plan_text plan) (world st))\<rparr>"
  let ?g = "gif_step ops s now_utc plan ?st1"
  have g: "plans (store (fst ?g)) = plans (store st)"
    by (simp add: gif_step_plans add_message_def)
  have d: "dispatch_plan ops s now_utc today dcount plan st
             = (case ?g of
                  (st2, Some e) \<Rightarrow> (st2, Some e)
                | (st2, None) \<Rightarrow>
                    (case mark_plan_sent (store st2) (plan_id plan) (utc_ts (timezone s) now_utc) of
                       Inl e \<Rightarrow> (st2, Some e)
                     | Inr db3 \<Rightarrow>
                         (st2\<lparr>store :=
                            update_daily_counter
                              (update_last_bot_ts db3 (plan_chat_id plan)
                                 (utc_ts (timezone s) now_utc))
                              (plan_chat_id plan) (dcount + 1) today\<rparr>, None)))"
    using True
    by (cases "send_text ops (plan_chat_id plan) (plan_text plan) (world st)")
      (simp add: dispatch_plan_def)
  show ?thesis
  proof (cases ?g)
    case (Pair st2 err)
    then have st2: "plans (store st2) = plans (store st)"
      using g by simp
    show ?thesis
    proof (cases err)
      case (Some e)
      then show ?thesis
        using d Pair st2 by simp
    next
      case None
      show ?thesis
      proof (cases "mark_plan_sent (store st2) (plan_id plan) (utc_ts (timezone s) now_utc)")
        case (Inl e)
        then show ?thesis
          using d Pair None st2 by simp
      next
        case (Inr db3)
        then have "filter (\<lambda>row. plan_id row = pid) (plans db3)
                     = filter (\<lambda>row. plan_id row = pid) (plans (store st2))"
          using mutation_other_rows(1)[OF assms] by blast
        then show ?thesis
          using d Pair None Inr st2
          by (simp add: update_daily_counter_def update_last_bot_ts_def)
      qed
    qed
  qed
qed

lemma handle_plan_other_rows:
  assumes "pid \<noteq> plan_id plan"
  shows "filter (\<lambda>row. plan_id row = pid)
           (plans (store (fst (handle_plan ops s blocks now_utc lnow plan st))))
         = filter (\<lambda>row. plan_id row = pid) (plans (store st))"
proof (cases "get_conversation (store st) (plan_chat_id plan)")
  case (Inl err)
  then show ?thesis
    by (simp add: handle_plan_def)
next
  case (Inr conv)
  let ?r = "refresh_daily_counter (store st) (plan_chat_id plan) (local_date lnow)
              (daily_date conv) (daily_count conv)"
  let ?P = "\<lambda>row. plan_id row = pid"
  have r: "plans (fst ?r) = plans (store st)"
    by (rule refresh_daily_counter_plans)
  have direct: "filter ?P (plans (store (fst (store_result st
                   (mark_plan_canceled (store st) (plan_id plan) t)))))
                 = filter ?P (plans (store st))" for t
    using mutation_other_rows(2)[OF assms] by (intro store_result_other_rows) blast
  have canceled: "filter ?P (plans (store (fst (store_result (st\<lparr>store := fst ?r\<rparr>)
                   (mark_plan_canceled (fst ?r) (plan_id plan) t)))))
                 = filter ?P (plans (store st))" for t
    using store_result_other_rows[of "mark_plan_canceled (fst ?r) (plan_id plan) t" ?P
        "st\<lparr>store := fst ?r\<rparr>"]
      mutation_other_rows(2)[OF assms, of "fst ?r"] r
    by simp
  have moved: "filter ?P (plans (store (fst (store_result (st\<lparr>store := fst ?r\<rparr>)
                   (reschedule_plan (fst ?r) (plan_id plan) u t)))))
                 = filter ?P (plans (store st))" for u t
    using store_result_other_rows[of "reschedule_plan (fst ?r) (plan_id plan) u t" ?P
        "st\<lparr>store := fst ?r\<rparr>"]
      mutation_other_rows(3)[OF assms, of "fst ?r"] r
    by simp
  have sent: "filter ?P (plans (store (fst (dispatch_plan ops s now_utc (local_date lnow)
                   (snd ?r) plan (st\<lparr>store := fst ?r\<rparr>)))))
                 = filter ?P (plans (store st))"
    using dispatch_plan_other_rows[OF assms, of ops s now_utc "local_date lnow" "snd ?r"
        "st\<lparr>store := fst ?r\<rparr>"] r
    by simp
  show ?thesis
    using Inr direct canceled moved sent
    by (cases ?r) (simp add: handle_plan_def split: option.splits)
qed

lemma process_plans_other_rows:
  assumes "pid \<notin> plan_id ` set due"
  shows "filter (\<lambda>row. plan_id row = pid)
           (plans (store (process_plans ops s blocks now_utc local_clock k due st)))
         = filter (\<lambda>row. plan_id row = pid) (plans (store st))"
  using assms
proof (induction due arbitrary: k st)
  case Nil
  then show ?case by simp
next
  case (Cons plan due)
  then show ?case
    by (simp add: handle_plan_other_rows)
qed

text \<open>A due plan that passes the checks reaches \<open>dispatch_plan\<close>, after the date rollover.\<close>

lemma handle_plan_reaches_dispatch:
  assumes "reaches_send s blocks now_utc lnow plan (store st)"
  shows "\<exists>dcount. handle_plan ops s blocks now_utc lnow plan st
           = dispatch_plan ops s now_utc (local_date lnow) dcount plan
               (st\<lparr>store := refreshed_store lnow plan (store st)\<rparr>)"
proof (cases "get_conversation (store st) (plan_chat_id plan)")
  case (Inl err)
  then show ?thesis
    using assms by (simp add: reaches_send_def)
next
  case (Inr conv)
  let ?r = "refresh_daily_counter (store st) (plan_chat_id plan) (local_date lnow)
              (daily_date conv) (daily_count conv)"
  have checks: "should_schedule_proactive s (chat_type conv)"
    "snd ?r < max_per_day (proactive s)"
    "\<not> is_within_quiet_hours lnow blocks"
    "case next_after_cooldown (last_bot_ts_utc conv) (cooldown_hours (proactive s)) of
       None \<Rightarrow> True
     | Some cooldown_until \<Rightarrow> \<not> dt_less (timezone s) now_utc cooldown_until"
    using assms Inr by (simp_all add: reaches_send_def)
  have store: "refreshed_store lnow plan (store st) = fst ?r"
    using Inr by (simp add: refreshed_store_def)
  have "handle_plan ops s blocks now_utc lnow plan st
          = dispatch_plan ops s now_utc (local_date lnow) (snd ?r) plan (st\<lparr>store := fst ?r\<rparr>)"
    using Inr checks by (cases ?r) (auto simp: handle_plan_def split: option.splits)
  then show ?thesis
    unfolding store by blast
qed

lemma dispatch_plan_send_failure:
  assumes "\<not> fst (send_text ops (plan_chat_id plan) (plan_text plan) (world st))"
  shows "dispatch_plan ops s now_utc today dcount plan st
           = (st\<lparr>world := snd (send_text ops (plan_chat_id plan) (plan_text plan) (world st))\<rparr>,
              Some SendTextFailed)"
  using assms
  by (cases "send_text ops (plan_chat_id plan) (plan_text plan) (world st)")
    (simp add: dispatch_plan_def)

lemma refreshed_store_tables:
  "plans (refreshed_store lnow plan db) = plans db"
  "messages (refreshed_store lnow plan db) = messages db"
  by (simp_all add: refreshed_store_def refresh_daily_counter_plans split: sum.splits)

text \<open>
  C8: when a due plan passes the checks of \<open>_handle_plan\<close> and the connector's
  \<open>send_text\<close> fails on its text, \<open>_handle_plan\<close> ends with that failure and with the
  store as the date rollover left it: the plans table is as it was before the plan was
  handled (the plan is neither marked sent nor canceled nor rescheduled) and no message
  is recorded. The loop goes on with the remaining due plans from that state; and after
  the whole batch the row of the failed plan is still as it was, the other plans of the
  batch having ids of their own.
\<close>

theorem send_failure_keeps_plan_pending:
  assumes reach: "reaches_send s blocks now_utc (local_clock k) plan (store st)"
    and fails: "\<not> fst (send_text ops (plan_chat_id plan) (plan_text plan) (world st))"
  shows "handle_plan ops s blocks now_utc (local_clock k) plan st
           = (st\<lparr>store := refreshed_store (local_clock k) plan (store st),
                 world := snd (send_text ops (plan_chat_id plan) (plan_text plan) (world st))\<rparr>,
              Some SendTextFailed)
     \<and> plans (store (fst (handle_plan ops s blocks now_utc (local_clock k) plan st)))
         = plans (store st)
     \<and> messages (store (fst (handle_plan ops s blocks now_utc (local_clock k) plan st)))
         = messages (store st)
     \<and> process_plans ops s blocks now_utc local_clock k (plan # due) st
         = process_plans ops s blocks now_utc local_clock (Suc k) due
             (st\<lparr>store := refreshed_store (local_clock k) plan (store st),
                 world := snd (send_text ops (plan_chat_id plan) (plan_text plan) (world st))\<rparr>)
     \<and> (plan_id plan \<notin> plan_id ` set due \<longrightarrow>
          filter (\<lambda>row. plan_id row = plan_id plan)
            (plans (store (process_plans ops s blocks now_utc local_clock k (plan # due) st)))
          = filter (\<lambda>row. plan_id row = plan_id plan) (plans (store st)))"
proof -
  let ?st' = "st\<lparr>store := refreshed_store (local_clock k) plan (store st),
                 world := snd (send_text ops (plan_chat_id plan) (plan_text plan) (world st))\<rparr>"
  obtain dcount where "handle_plan ops s blocks now_utc (local_clock k) plan st
           = dispatch_plan ops s now_utc (local_date (local_clock k)) dcount plan
               (st\<lparr>store := refreshed_store (local_clock k) plan (store st)\<rparr>)"
    using handle_plan_reaches_dispatch[OF reach] by blast
  then have h: "handle_plan ops s blocks now_utc (local_clock k) plan st
                  = (?st', Some SendTextFailed)"
    using fails by (simp add: dispatch_plan_send_failure)
  have same: "plans (store ?st') = plans (store st)" "messages (store ?st') = messages (store st)"
    by (simp_all add: refreshed_store_tables)
  have step: "process_plans ops s blocks now_utc local_clock k (plan # due) st
         = process_plans ops s blocks now_utc local_clock (Suc k) due ?st'"
    by (simp add: h)
  have rest: "filter (\<lambda>row. plan_id row = plan_id plan)
            (plans (store (process_plans ops s blocks now_utc local_clock k (plan # due) st)))
          = filter (\<lambda>row. plan_id row = plan_id plan) (plans (store st))"
    if other_ids: "plan_id plan \<notin> plan_id ` set due"
    using process_plans_other_rows[OF other_ids, of ops s blocks now_utc local_clock
        "Suc k" ?st']
    unfolding step same .
  show ?thesis
    using h same step rest by simp
qed

text \<open>
  The theorem on a batch of two due plans: sending the text of plan 1 (chat \<open>a\<close>) fails,
  plan 1 stays pending, and plan 2 (chat \<open>b\<close>) is sent all the same.
\<close>

theorem send_failure_keeps_plan_pending_witness:
  "reaches_send example_settings [] noon_utc (noon_clock 0)
     (plan_from_row (text_row 1 ''a'' 20 ''boom'')) (store failing_state)
   \<and> \<not> fst (send_text logging_ops ''a'' ''boom'' (world failing_state))
   \<and> handle_plan logging_ops example_settings [] noon_utc (noon_clock 0)
       (plan_from_row (text_row 1 ''a'' 20 ''boom'')) failing_state
     = (failing_state, Some SendTextFailed)
   \<and> get_due_plans_default (store failing_state) (utc_ts (timezone example_settings) noon_utc)
       = [plan_from_row (text_row 1 ''a'' 20 ''boom''),
          plan_from_row (text_row 2 ''b'' 30 ''second'')]
   \<and> map status
       (plans (store (process_due_plans logging_ops example_settings noon_utc noon_clock
                        failing_state)))
       = [Pending, Sent]
   \<and> world (process_due_plans logging_ops example_settings noon_utc noon_clock failing_state)
       = [(''b'', ''second'')]
   \<and> filter (\<lambda>row. plan_id row = 1)
       (plans (store (process_plans logging_ops example_settings [] noon_utc noon_clock 0
          [plan_from_row (text_row 1 ''a'' 20 ''boom''),
           plan_from_row (text_row 2 ''b'' 30 ''second'')] failing_state)))
     = [text_row 1 ''a'' 20 ''boom'']"
proof -
  let ?plan = "plan_from_row (text_row 1 ''a'' 20 ''boom'')"
  have reach: "reaches_send example_settings [] noon_utc (noon_clock 0) ?plan
                 (store failing_state)"
    by code_simp
  have chat: "plan_chat_id ?plan = ''a''" "plan_text ?plan = ''boom''" "plan_id ?plan = 1"
    by (simp_all add: plan_from_row_def plan_record.truncate_def text_row_def example_row_def)
  have unsent: "\<not> fst (send_text logging_ops ''a'' ''boom'' (world failing_state))"
    by (simp add: logging_ops_def)
  have fails: "\<not> fst (send_text logging_ops (plan_chat_id ?plan) (plan_text ?plan)
                       (world failing_state))"
    unfolding chat by (rule unsent)
  have same: "failing_state\<lparr>store := refreshed_store (noon_clock 0) ?plan (store failing_state),
                 world := snd (send_text logging_ops (plan_chat_id ?plan) (plan_text ?plan)
                                (world failing_state))\<rparr>
              = failing_state"
    by code_simp
  have due: "get_due_plans_default (store failing_state)
               (utc_ts (timezone example_settings) noon_utc)
       = [?plan, plan_from_row (text_row 2 ''b'' 30 ''second'')]"
    by code_simp
  have statuses: "map status
       (plans (store (process_due_plans logging_ops example_settings noon_utc noon_clock
                        failing_state)))
       = [Pending, Sent]"
    by code_simp
  have sent: "world (process_due_plans logging_ops example_settings noon_utc noon_clock
                       failing_state)
       = [(''b'', ''second'')]"
    by code_simp
  have other: "plan_id ?plan \<notin> plan_id ` set [plan_from_row (text_row 2 ''b'' 30 ''second'')]"
    by (simp add: plan_from_row_def plan_record.truncate_def text_row_def example_row_def)
  have row: "filter (\<lambda>row. plan_id row = 1) (plans (store failing_state))
               = [text_row 1 ''a'' 20 ''boom'']"
    by (simp add: failing_state_def store_of_def text_row_def example_row_def)
  note failed = send_failure_keeps_plan_pending[where local_clock = noon_clock and k = 0
        and ops = logging_ops and s = example_settings and blocks = "[]"
        and now_utc = noon_utc and plan = ?plan and st = failing_state
        and due = "[plan_from_row (text_row 2 ''b'' 30 ''second'')]", OF reach fails,
        unfolded same]
  have handled: "handle_plan logging_ops example_settings [] noon_utc (noon_clock 0) ?plan
                   failing_state
     = (failing_state, Some SendTextFailed)"
    using failed by blast
  have kept: "filter (\<lambda>row. plan_id row = plan_id ?plan)
       (plans (store (process_plans logging_ops example_settings [] noon_utc noon_clock 0
          [?plan, plan_from_row (text_row 2 ''b'' 30 ''second'')] failing_state)))
     = filter (\<lambda>row. plan_id row = plan_id ?plan) (plans (store failing_state))"
    using failed other by blast
  have pending: "filter (\<lambda>row. plan_id row = 1)
       (plans (store (process_plans logging_ops example_settings [] noon_utc noon_clock 0
          [?plan, plan_from_row (text_row 2 ''b'' 30 ''second'')] failing_state)))
     = [text_row 1 ''a'' 20 ''boom'']"
    using kept row by (simp only: chat(3))
  show ?thesis
    using reach unsent handled due statuses sent pending by blast
qed

text \<open>What the two cancel paths of \<open>handle_plan\<close> do.\<close>

lemma handle_plan_cancel_paths:
  assumes conv: "get_conversation (store st) (plan_chat_id plan) = Inr conv"
    and cap: "max_per_day (proactive s)
                \<le> snd (refresh_daily_counter (store st) (plan_chat_id plan)
                         (local_date lnow) (daily_date conv) (daily_count conv))"
  shows "\<exists>db0. plans db0 = plans (store st) \<and> messages db0 = messages (store st)
           \<and> handle_plan ops s blocks now_utc lnow plan st
               = store_result (st\<lparr>store := db0\<rparr>)
                   (mark_plan_canceled db0 (plan_id plan) (utc_ts (timezone s) now_utc))"
proof (cases "should_schedule_proactive s (chat_type conv)")
  case False
  then have "handle_plan ops s blocks now_utc lnow plan st
               = store_result (st\<lparr>store := store st\<rparr>)
                   (mark_plan_canceled (store st) (plan_id plan) (utc_ts (timezone s) now_utc))"
    using conv by (simp add: handle_plan_def)
  then show ?thesis
    by blast
next
  case True
  let ?r = "refresh_daily_counter (store st) (plan_chat_id plan) (local_date lnow)
              (daily_date conv) (daily_count conv)"
  have "handle_plan ops s blocks now_utc lnow plan st
               = store_result (st\<lparr>store := fst ?r\<rparr>)
                   (mark_plan_canceled (fst ?r) (plan_id plan) (utc_ts (timezone s) now_utc))"
    using conv cap True by (cases ?r) (simp add: handle_plan_def)
  then show ?thesis
    using refresh_daily_counter_plans[of "store st" "plan_chat_id plan" "local_date lnow"
        "daily_date conv" "daily_count conv"]
    by blast
qed

text \<open>
  C9: for a due plan whose conversation is in the store, if the daily counter after
  the date rollover is at or above \<open>max_per_day\<close>, handling the plan leaves the outside
  world as it was (nothing is dispatched) and records no message. When the plan's id
  and the clock reading fit the 64 bits of an SQLite integer, as the id of a row and
  the time of a clock do, it raises nothing and its effect on the plans is that of
  \<open>mark_plan_canceled\<close>: every row with the plan's id is canceled. Otherwise the
  \<open>OverflowError\<close> of \<open>mark_plan_canceled\<close> escapes and the plans are as they were.
\<close>

theorem daily_cap_cancels_without_dispatch:
  assumes conv: "get_conversation (store st) (plan_chat_id plan) = Inr conv"
    and cap: "max_per_day (proactive s)
                \<le> snd (refresh_daily_counter (store st) (plan_chat_id plan)
                         (local_date lnow) (daily_date conv) (daily_count conv))"
  shows "world (fst (handle_plan ops s blocks now_utc lnow plan st)) = world st
     \<and> messages (store (fst (handle_plan ops s blocks now_utc lnow plan st)))
         = messages (store st)
     \<and> (fits_int64 (plan_id plan) \<and> fits_int64 (utc_ts (timezone s) now_utc) \<longrightarrow>
          snd (handle_plan ops s blocks now_utc lnow plan st) = None
          \<and> (\<exists>db'. mark_plan_canceled (store st) (plan_id plan) (utc_ts (timezone s) now_utc)
                      = Inr db'
                \<and> plans (store (fst (handle_plan ops s blocks now_utc lnow plan st)))
                    = plans db')
          \<and> (\<forall>row \<in> set (plans (store (fst (handle_plan ops s blocks now_utc lnow plan st)))).
                plan_id row = plan_id plan \<longrightarrow> status row = Canceled))
     \<and> (\<not> (fits_int64 (plan_id plan) \<and> fits_int64 (utc_ts (timezone s) now_utc)) \<longrightarrow>
          snd (handle_plan ops s blocks now_utc lnow plan st) = Some OverflowError
          \<and> plans (store (fst (handle_plan ops s blocks now_utc lnow plan st)))
              = plans (store st))"
proof -
  let ?t = "utc_ts (timezone s) now_utc"
  let ?H = "handle_plan ops s blocks now_utc lnow plan st"
  obtain db0 where db0: "plans db0 = plans (store st)" "messages db0 = messages (store st)"
    and h: "?H = store_result (st\<lparr>store := db0\<rparr>) (mark_plan_canceled db0 (plan_id plan) ?t)"
    using handle_plan_cancel_paths[OF conv cap] by blast
  have quiet: "world (fst ?H) = world st"
    unfolding h by (simp add: store_result_def split: sum.splits)
  have silent: "messages (store (fst ?H)) = messages (store st)"
    unfolding h using db0(2)
    by (auto simp: store_result_def mark_plan_canceled_def split: sum.splits if_splits)
  have fit: "snd ?H = None
          \<and> (\<exists>db'. mark_plan_canceled (store st) (plan_id plan) ?t = Inr db'
                \<and> plans (store (fst ?H)) = plans db')
          \<and> (\<forall>row \<in> set (plans (store (fst ?H))).
                plan_id row = plan_id plan \<longrightarrow> status row = Canceled)"
    if "fits_int64 (plan_id plan) \<and> fits_int64 ?t"
    unfolding h using that db0(1)
    by (auto simp: store_result_def mark_plan_canceled_result)
  have overflow: "snd ?H = Some OverflowError \<and> plans (store (fst ?H)) = plans (store st)"
    if "\<not> (fits_int64 (plan_id plan) \<and> fits_int64 ?t)"
    unfolding h using that db0(1)
    by (auto simp: store_result_def mark_plan_canceled_def)
  show ?thesis
    using quiet silent fit overflow by blast
qed

text \<open>
  The theorem for the spec's scenario, \<open>max_per_day = 1\<close>: the first of two due plans
  of chat \<open>a\<close> is sent, which brings today's count to 1; the second is canceled and
  the connector has sent the first text only.
\<close>

theorem daily_cap_cancels_without_dispatch_witness:
  "get_conversation (store after_first_send) ''a''
     = Inr (example_conversation (Some 1699963200) 1 (Some 19675))
   \<and> fits_int64 2 \<and> fits_int64 (utc_ts (timezone example_settings) noon_utc)
   \<and> map status (plans (store after_first_send)) = [Sent, Pending]
   \<and> world after_first_send = [(''a'', ''first'')]
   \<and> world (fst (handle_plan logging_ops example_settings [] noon_utc (noon_clock 1)
                   (plan_from_row (text_row 2 ''a'' 30 ''second'')) after_first_send))
       = [(''a'', ''first'')]
   \<and> snd (handle_plan logging_ops example_settings [] noon_utc (noon_clock 1)
            (plan_from_row (text_row 2 ''a'' 30 ''second'')) after_first_send)
       = None
   \<and> map status
       (plans (store (fst (handle_plan logging_ops example_settings [] noon_utc (noon_clock 1)
                             (plan_from_row (text_row 2 ''a'' 30 ''second''))
                             after_first_send))))
       = [Sent, Canceled]
   \<and> map status
       (plans (store (process_due_plans logging_ops example_settings noon_utc noon_clock
                        two_plans_state)))
       = [Sent, Canceled]
   \<and> world (process_due_plans logging_ops example_settings noon_utc noon_clock two_plans_state)
       = [(''a'', ''first'')]"
proof -
  have conv: "get_conversation (store after_first_send)
                (plan_chat_id (plan_from_row (text_row 2 ''a'' 30 ''second'')))
     = Inr (example_conversation (Some 1699963200) 1 (Some 19675))"
    by code_simp
  have cap: "max_per_day (proactive example_settings)
               \<le> snd (refresh_daily_counter (store after_first_send)
                        (plan_chat_id (plan_from_row (text_row 2 ''a'' 30 ''second'')))
                        (local_date (noon_clock 1))
                        (daily_date (example_conversation (Some 1699963200) 1 (Some 19675)))
                        (daily_count (example_conversation (Some 1699963200) 1 (Some 19675))))"
    by code_simp
  have chat: "plan_chat_id (plan_from_row (text_row 2 ''a'' 30 ''second'')) = ''a''"
    "plan_id (plan_from_row (text_row 2 ''a'' 30 ''second'')) = 2"
    by (simp_all add: plan_from_row_def plan_record.truncate_def text_row_def example_row_def)
  have fits: "fits_int64 2" "fits_int64 (utc_ts (timezone example_settings) noon_utc)"
    by code_simp+
  have before: "map status (plans (store after_first_send)) = [Sent, Pending]"
    by code_simp
  have sent: "world after_first_send = [(''a'', ''first'')]"
    by code_simp
  have canceled: "map status
       (plans (store (fst (handle_plan logging_ops example_settings [] noon_utc (noon_clock 1)
                             (plan_from_row (text_row 2 ''a'' 30 ''second''))
                             after_first_send))))
       = [Sent, Canceled]"
    by code_simp
  have batch: "map status
       (plans (store (process_due_plans logging_ops example_settings noon_utc noon_clock
                        two_plans_state)))
       = [Sent, Canceled]"
    by code_simp
  have batch_world: "world (process_due_plans logging_ops example_settings noon_utc
                              noon_clock two_plans_state)
       = [(''a'', ''first'')]"
    by code_simp
  have quiet: "world (fst (handle_plan logging_ops example_settings [] noon_utc (noon_clock 1)
                   (plan_from_row (text_row 2 ''a'' 30 ''second'')) after_first_send))
       = world after_first_send
     \<and> snd (handle_plan logging_ops example_settings [] noon_utc (noon_clock 1)
            (plan_from_row (text_row 2 ''a'' 30 ''second'')) after_first_send)
       = None"
    using daily_cap_cancels_without_dispatch[OF conv cap, of logging_ops "[]" noon_utc]
      fits chat(2)
    by simp
  show ?thesis
    using conv[unfolded chat] fits before sent quiet[unfolded sent] canceled batch batch_world
    by blast
qed

end
